theory Spec2Isabelle
  imports Complex_Main
begin

section \<open>The key-value store: DynamoDB tables of sst.config.ts\<close>

text \<open>
  An item is a JavaScript object literal of attribute names and values, in the order the
  source writes them. A DynamoDB number and a JavaScript number are both \<open>N\<close>.
\<close>

datatype attr = S string | N real

type_synonym item = "(string \<times> attr) list"

datatype table_id =
  PriceConnectionsTable | BalanceConnectionsTable | PriceTimeSeriesTable | WebsocketNonceTable

text \<open>
  The primary index of each table, as sst.config.ts declares it: \<open>hashKey\<close> alone for the
  connection tables and the nonce table, \<open>hashKey\<close> and \<open>rangeKey\<close> for the time series.
\<close>

fun keySchema :: "table_id \<Rightarrow> string list" where
  "keySchema PriceConnectionsTable = [''connectionId'']"
| "keySchema BalanceConnectionsTable = [''connectionId'']"
| "keySchema PriceTimeSeriesTable = [''tokenDate'', ''timestamp'']"
| "keySchema WebsocketNonceTable = [''wallet'']"

type_synonym store = "table_id \<Rightarrow> item list"

definition primaryKey :: "table_id \<Rightarrow> item \<Rightarrow> attr option list" where
  "primaryKey T i = map (map_of i) (keySchema T)"

text \<open>What a JavaScript call can throw.\<close>

datatype exn =
  ServiceError | ValidationException | SyntaxError | TypeError | ZodError | GoneException
| SendError

text \<open>
  The requests the handlers send to the store. Whether the service fails a request
  (throttling, network) is not decided by the program: every handler takes an oracle
  \<open>fails\<close> over the requests, and a request it fails throws \<open>ServiceError\<close> and leaves
  the store as it was.
\<close>

datatype dbop =
  Get table_id item | Put table_id item | Delete table_id item
| Query table_id string | Scan table_id nat

definition GetCommand :: "(dbop \<Rightarrow> bool) \<Rightarrow> table_id \<Rightarrow> item \<Rightarrow> store \<Rightarrow> exn + item option" where
  "GetCommand fails T key s =
     (if fails (Get T key) then Inl ServiceError
      else if map fst key \<noteq> keySchema T then Inl ValidationException
      else Inr (find (\<lambda>i. primaryKey T i = primaryKey T key) (s T)))"

text \<open>A put replaces the item that has the same primary key, if there is one.\<close>

definition PutCommand :: "(dbop \<Rightarrow> bool) \<Rightarrow> table_id \<Rightarrow> item \<Rightarrow> store \<Rightarrow> exn + store" where
  "PutCommand fails T i s =
     (if fails (Put T i) then Inl ServiceError
      else if list_ex (\<lambda>k. map_of i k = None) (keySchema T) then Inl ValidationException
      else Inr (s(T := filter (\<lambda>j. primaryKey T j \<noteq> primaryKey T i) (s T) @ [i])))"

text \<open>A delete of a key that is absent succeeds and changes nothing.\<close>

definition DeleteCommand :: "(dbop \<Rightarrow> bool) \<Rightarrow> table_id \<Rightarrow> item \<Rightarrow> store \<Rightarrow> exn + store" where
  "DeleteCommand fails T key s =
     (if fails (Delete T key) then Inl ServiceError
      else if map fst key \<noteq> keySchema T then Inl ValidationException
      else Inr (s(T := filter (\<lambda>j. primaryKey T j \<noteq> primaryKey T key) (s T))))"

text \<open>
  The condition and filter expressions of the service: comparisons of attribute names
  and value placeholders. An operand is an attribute name as the expression writes it (a
  bare name, or an alias \<open>#a\<close> that \<open>ExpressionAttributeNames\<close> resolves) or a placeholder
  \<open>:v\<close> that \<open>ExpressionAttributeValues\<close> resolves.
\<close>

datatype operand = Name string | Placeholder string

datatype expr =
  CondEq operand operand | CondLt operand operand | CondExists operand | CondAnd expr expr

text \<open>
  Of the reserved words of the service, those that are attribute names in this
  repository. The service refuses an expression that names a reserved word otherwise
  than through an alias; the sibling code of the repository writes \<open>#token\<close> and \<open>#ts\<close>.
\<close>

definition reserved_words :: "string list" where
  "reserved_words = [''timestamp'', ''token'', ''ttl'']"

fun operand_ok :: "(string \<times> string) list \<Rightarrow> item \<Rightarrow> operand \<Rightarrow> bool" where
  "operand_ok names values (Name n) =
     (case n of
        [] \<Rightarrow> False
      | c # cs \<Rightarrow> if c = CHR ''#'' then map_of names n \<noteq> None else n \<notin> set reserved_words)"
| "operand_ok names values (Placeholder p) = (map_of values p \<noteq> None)"

fun valid_expr :: "(string \<times> string) list \<Rightarrow> item \<Rightarrow> expr \<Rightarrow> bool" where
  "valid_expr names values (CondEq a b) = (operand_ok names values a \<and> operand_ok names values b)"
| "valid_expr names values (CondLt a b) = (operand_ok names values a \<and> operand_ok names values b)"
| "valid_expr names values (CondExists a) = operand_ok names values a"
| "valid_expr names values (CondAnd e1 e2) = (valid_expr names values e1 \<and> valid_expr names values e2)"

fun operand_value :: "(string \<times> string) list \<Rightarrow> item \<Rightarrow> item \<Rightarrow> operand \<Rightarrow> attr option" where
  "operand_value names values i (Name n) =
     map_of i (case map_of names n of None \<Rightarrow> n | Some a \<Rightarrow> a)"
| "operand_value names values i (Placeholder p) = map_of values p"

text \<open>Of the order, only that of numbers is needed.\<close>

fun eval_expr :: "(string \<times> string) list \<Rightarrow> item \<Rightarrow> item \<Rightarrow> expr \<Rightarrow> bool" where
  "eval_expr names values i (CondEq a b) =
     (case (operand_value names values i a, operand_value names values i b) of
        (Some x, Some y) \<Rightarrow> x = y
      | _ \<Rightarrow> False)"
| "eval_expr names values i (CondLt a b) =
     (case (operand_value names values i a, operand_value names values i b) of
        (Some (N x), Some (N y)) \<Rightarrow> x < y
      | _ \<Rightarrow> False)"
| "eval_expr names values i (CondExists a) = (operand_value names values i a \<noteq> None)"
| "eval_expr names values i (CondAnd e1 e2) =
     (eval_expr names values i e1 \<and> eval_expr names values i e2)"

text \<open>
  A query on an index: the key condition expression, \<open>ExpressionAttributeNames\<close> and
  \<open>ExpressionAttributeValues\<close>. An expression that is not valid is refused.
\<close>

definition QueryCommand ::
    "(dbop \<Rightarrow> bool) \<Rightarrow> table_id \<Rightarrow> string \<Rightarrow> expr \<Rightarrow> (string \<times> string) list \<Rightarrow> item \<Rightarrow> store \<Rightarrow>
     exn + item list" where
  "QueryCommand fails T IndexName KeyConditionExpression names values s =
     (if fails (Query T IndexName) then Inl ServiceError
      else if \<not> valid_expr names values KeyConditionExpression then Inl ValidationException
      else Inr (filter (\<lambda>i. eval_expr names values i KeyConditionExpression) (s T)))"

text \<open>The rows a table can hold: every key attribute present, no two rows with one key.\<close>

definition wf_table :: "table_id \<Rightarrow> item list \<Rightarrow> bool" where
  "wf_table T rows =
     (distinct (map (primaryKey T) rows) \<and>
      list_all (\<lambda>i. list_all (\<lambda>k. map_of i k \<noteq> None) (keySchema T)) rows)"

section \<open>API Gateway events and responses\<close>

datatype json =
  JNull | JBool bool | JNum real | JStr string | JArr "json list" | JObj "(string \<times> json) list"

text \<open>
  \<open>event.body\<close> is a string or undefined. \<open>JSON.parse\<close> is the platform's: the model takes
  the body as absent, as text that is not JSON, or as the text of a JSON value.
\<close>

datatype raw_body = NoBody | BadJson | Json json

record event =
  connectionId :: string
  domainName :: string
  stage :: string
  headers :: "string \<rightharpoonup> string"
  queryStringParameters :: "string \<rightharpoonup> string"
  body :: raw_body

text \<open>\<open>JSON.parse(event.body || "{}")\<close>\<close>

definition parse_body :: "raw_body \<Rightarrow> exn + json" where
  "parse_body b = (case b of NoBody \<Rightarrow> Inr (JObj []) | BadJson \<Rightarrow> Inl SyntaxError | Json j \<Rightarrow> Inr j)"

datatype resp_body =
  ErrorBody string | MessageBody string | NonceBody string string int | StatusBody string
| InvalidPayloadBody

datatype response = Response (statusCode: nat) (responseBody: resp_body)

text \<open>The calls a handler makes to the outside, in the order it makes them.\<close>

datatype call =
  Db dbop
| Verify string string string
| PostToConnection json json
| Log string
| LogFor string json

text \<open>JavaScript truthiness of an optional string, and \<open>a || b\<close>.\<close>

definition truthy :: "string option \<Rightarrow> bool" where
  "truthy v = (case v of None \<Rightarrow> False | Some s \<Rightarrow> s \<noteq> [])"

definition js_or :: "string option \<Rightarrow> string option \<Rightarrow> string option" where
  "js_or a b = (if truthy a then a else b)"

section \<open>Nonce issuer: source/api/generateNonce.ts\<close>

text \<open>\<open>uuid\<close> is what \<open>randomUUID()\<close> returns and \<open>now\<close> what \<open>Date.now()\<close> returns (ms).\<close>

definition generateNonce_handler ::
    "(dbop \<Rightarrow> bool) \<Rightarrow> string \<Rightarrow> int \<Rightarrow> event \<Rightarrow> store \<Rightarrow> response \<times> store" where
  "generateNonce_handler fails uuid now ev s =
     (let wallet = queryStringParameters ev ''wallet'' in
      case wallet of
        None \<Rightarrow> (Response 400 (ErrorBody ''wallet parameter is required''), s)
      | Some w \<Rightarrow>
          if w = [] then (Response 400 (ErrorBody ''wallet parameter is required''), s)
          else
            let nonce = uuid;
                expiresAt = now div 1000 + 600
            in (case PutCommand fails WebsocketNonceTable
                       [(''wallet'', S w), (''nonce'', S nonce), (''ttl'', N (of_int expiresAt))] s of
                  Inl e \<Rightarrow> (Response 500 (ErrorBody ''Internal server error''), s)
                | Inr s' \<Rightarrow> (Response 200 (NonceBody w nonce (expiresAt * 1000)), s')))"

section \<open>Connection authenticator: source/websocket/connect.ts\<close>

text \<open>
  The signature check is the library's (\<open>PublicKey\<close>, \<open>Buffer.from\<close>,
  \<open>nacl.sign.detached.verify\<close>): \<open>verify message signature wallet\<close> is \<open>None\<close> when that
  block throws (a wallet that is no public key, a signature of the wrong size) and
  \<open>Some verified\<close> otherwise.

  \<open>authenticate\<close> is lines 26 to 88 of the handler, entered once the three parameters are
  there.
\<close>

text \<open>Line 34: \<open>!nonceResult.Item || nonceResult.Item.nonce !== message\<close>\<close>

definition nonce_mismatch :: "item option \<Rightarrow> string \<Rightarrow> bool" where
  "nonce_mismatch Item message =
     (case Item of None \<Rightarrow> True | Some i \<Rightarrow> map_of i ''nonce'' \<noteq> Some (S message))"

definition authenticate ::
    "(string \<Rightarrow> string \<Rightarrow> string \<Rightarrow> bool option) \<Rightarrow> (dbop \<Rightarrow> bool) \<Rightarrow>
     string \<Rightarrow> string \<Rightarrow> string \<Rightarrow> store \<Rightarrow> response \<times> store \<times> call list" where
  "authenticate verify fails wallet signature message s =
     (let key = [(''wallet'', S wallet)] in
      case GetCommand fails WebsocketNonceTable key s of
        Inl e \<Rightarrow>
          (Response 500 (ErrorBody ''Internal server error''), s,
           [Db (Get WebsocketNonceTable key)])
      | Inr nonceResult \<Rightarrow>
          if nonce_mismatch nonceResult message
          then (Response 401 (ErrorBody ''Invalid or expired nonce''), s,
                [Db (Get WebsocketNonceTable key)])
          else
            (case verify message signature wallet of
               None \<Rightarrow>
                 (Response 401 (ErrorBody ''Invalid signature format''), s,
                  [Db (Get WebsocketNonceTable key), Verify message signature wallet])
             | Some verified \<Rightarrow>
                 if \<not> verified
                 then (Response 401 (ErrorBody ''Invalid signature''), s,
                       [Db (Get WebsocketNonceTable key), Verify message signature wallet])
                 else
                   (case DeleteCommand fails WebsocketNonceTable key s of
                      Inl e \<Rightarrow>
                        (Response 500 (ErrorBody ''Internal server error''), s,
                         [Db (Get WebsocketNonceTable key), Verify message signature wallet,
                          Db (Delete WebsocketNonceTable key)])
                    | Inr s' \<Rightarrow>
                        (Response 200 (MessageBody ''Connected''), s',
                         [Db (Get WebsocketNonceTable key), Verify message signature wallet,
                          Db (Delete WebsocketNonceTable key)]))))"

text \<open>Lines 15 to 17: a parameter of the attempt, from the headers or else the query string.\<close>

definition auth_param :: "event \<Rightarrow> string \<Rightarrow> string option" where
  "auth_param ev name = js_or (headers ev name) (queryStringParameters ev name)"

definition connect_handler ::
    "(string \<Rightarrow> string \<Rightarrow> string \<Rightarrow> bool option) \<Rightarrow> (dbop \<Rightarrow> bool) \<Rightarrow>
     event \<Rightarrow> store \<Rightarrow> response \<times> store \<times> call list" where
  "connect_handler verify fails ev s =
     (let wallet = auth_param ev ''wallet'';
          signature = auth_param ev ''signature'';
          message = auth_param ev ''message''
      in if \<not> truthy wallet \<or> \<not> truthy signature \<or> \<not> truthy message
         then (Response 401 (ErrorBody ''Missing authentication parameters''), s, [])
         else case (wallet, signature, message) of
                (Some w, Some sg, Some m) \<Rightarrow> authenticate verify fails w sg m s
              | _ \<Rightarrow> (Response 401 (ErrorBody ''Missing authentication parameters''), s, []))"

text \<open>
  The row of the nonce table under a wallet: what a \<open>GetCommand\<close> that does not fail
  returns.
\<close>

definition stored_nonce :: "store \<Rightarrow> string \<Rightarrow> item option" where
  "stored_nonce s wallet =
     find (\<lambda>i. map_of i ''wallet'' = Some (S wallet)) (s WebsocketNonceTable)"

section \<open>Subscription registry: source/websocket/subscribePrice.ts\<close>

text \<open>\<open>SubscribePriceSchema.parse(body)\<close>: an object whose \<open>token\<close> is a string of length at least 1.\<close>

definition SubscribePriceSchema_parse :: "json \<Rightarrow> exn + string" where
  "SubscribePriceSchema_parse j =
     (case j of
        JObj props \<Rightarrow>
          (case map_of props ''token'' of
             Some (JStr t) \<Rightarrow> if 1 \<le> length t then Inr t else Inl ZodError
           | _ \<Rightarrow> Inl ZodError)
      | _ \<Rightarrow> Inl ZodError)"

text \<open>
  \<open>post connectionId data\<close> is what \<open>PostToConnectionCommand\<close> does: \<open>None\<close> when the frame is
  delivered, \<open>Some GoneException\<close> for a connection that is gone, another exception
  otherwise. The connection id is a JSON value: the worker passes on what a queue record
  holds.
\<close>

definition subscribe_error ::
    "(json \<Rightarrow> json \<Rightarrow> exn option) \<Rightarrow> event \<Rightarrow> exn \<Rightarrow> store \<Rightarrow> call list \<Rightarrow>
     response \<times> store \<times> call list" where
  "subscribe_error post ev e s tr =
     (let errorMessage =
            (if e = ZodError then ''Invalid request: token is required'' else ''Subscription failed'');
          frame = JObj [(''type'', JStr ''ERROR''), (''code'', JStr ''SUBSCRIPTION_FAILED''),
                        (''message'', JStr errorMessage)]
      in (Response 400 (ErrorBody errorMessage), s,
          tr @ [PostToConnection (JStr (connectionId ev)) frame] @
          (case post (JStr (connectionId ev)) frame of
             None \<Rightarrow> [] | Some x \<Rightarrow> [Log ''Failed to send error message''])))"

text \<open>Lines 34 to 38: the row of a price subscription.\<close>

definition price_row :: "string \<Rightarrow> string \<Rightarrow> int \<Rightarrow> item" where
  "price_row connId token ttl =
     [(''connectionId'', S connId), (''token'', S token), (''ttl'', N (of_int ttl))]"

definition subscribePrice_handler ::
    "(dbop \<Rightarrow> bool) \<Rightarrow> (json \<Rightarrow> json \<Rightarrow> exn option) \<Rightarrow> int \<Rightarrow> event \<Rightarrow> store \<Rightarrow>
     response \<times> store \<times> call list" where
  "subscribePrice_handler fails post now ev s =
     (case parse_body (body ev) of
        Inl e \<Rightarrow> subscribe_error post ev e s []
      | Inr parsed \<Rightarrow>
          (case SubscribePriceSchema_parse parsed of
             Inl e \<Rightarrow> subscribe_error post ev e s []
           | Inr token \<Rightarrow>
               let ttl = now div 1000 + 3600;
                   row = price_row (connectionId ev) token ttl
               in (case PutCommand fails PriceConnectionsTable row s of
                    Inl e \<Rightarrow> subscribe_error post ev e s [Db (Put PriceConnectionsTable row)]
                  | Inr s' \<Rightarrow>
                      let confirmationMessage =
                            JObj [(''type'', JStr ''SUBSCRIPTION_CONFIRMED''),
                                  (''subscription'', JStr ''price''),
                                  (''token'', JStr token),
                                  (''message'', JStr (''Subscribed to price updates for '' @ token))]
                      in (case post (JStr (connectionId ev)) confirmationMessage of
                            Some e \<Rightarrow>
                              subscribe_error post ev e s'
                                [Db (Put PriceConnectionsTable row),
                                 PostToConnection (JStr (connectionId ev)) confirmationMessage]
                          | None \<Rightarrow>
                              (Response 200 (MessageBody ''Subscribed successfully''), s',
                               [Db (Put PriceConnectionsTable row),
                                PostToConnection (JStr (connectionId ev)) confirmationMessage])))))"

section \<open>Queue worker: source/workers/broadcast.ts\<close>

text \<open>
  Lines 20 to 31: the connections subscribed to a token, by the index \<open>byToken\<close>, with
  the key condition \<open>token = :token\<close> and no \<open>ExpressionAttributeNames\<close>.
  \<open>item.connectionId\<close> of a row is a JSON value, or undefined.
\<close>

definition resolveSubscribers ::
    "(dbop \<Rightarrow> bool) \<Rightarrow> string \<Rightarrow> store \<Rightarrow> exn + json option list" where
  "resolveSubscribers fails token s =
     (case QueryCommand fails PriceConnectionsTable ''byToken''
             (CondEq (Name ''token'') (Placeholder '':token'')) [] [('':token'', S token)] s of
        Inl e \<Rightarrow> Inl e
      | Inr Items \<Rightarrow>
          Inr (map (\<lambda>item. case map_of item ''connectionId'' of
                              None \<Rightarrow> None
                            | Some (S c) \<Rightarrow> Some (JStr c)
                            | Some (N n) \<Rightarrow> Some (JNum n)) Items))"

definition get_field :: "json \<Rightarrow> string \<Rightarrow> json option" where
  "get_field j k = (case j of JObj props \<Rightarrow> map_of props k | _ \<Rightarrow> None)"

text \<open>
  \<open>error.statusCode\<close>: the errors of the version 3 client (\<open>@aws-sdk/client-*\<close>) carry
  their HTTP status in \<open>$metadata.httpStatusCode\<close>; none has a property \<open>statusCode\<close>.
\<close>

definition error_statusCode :: "exn \<Rightarrow> nat option" where
  "error_statusCode e = None"

text \<open>
  One recipient of lines 47 to 65. The client library refuses an undefined connection
  id; any JSON value is posted.
\<close>

definition send_to_connection ::
    "(json \<Rightarrow> json \<Rightarrow> exn option) \<Rightarrow> json \<Rightarrow> json option \<Rightarrow> call list" where
  "send_to_connection post message cid =
     (case cid of
        None \<Rightarrow> [Log ''Failed to send'']
      | Some c \<Rightarrow>
          PostToConnection c message #
          (case post c message of
             None \<Rightarrow> [LogFor ''Sent message to connection'' c]
           | Some e \<Rightarrow>
               if error_statusCode e = Some 410
               then [LogFor ''Stale connection detected'' c]
               else [LogFor ''Failed to send to'' c]))"

text \<open>
  \<open>!targetConnectionIds || targetConnectionIds.length === 0\<close> on the \<open>connectionIds\<close> of
  the record: a falsy value or a value of length 0 asks the registry; a non-empty array
  is the recipients; any other value has no \<open>map\<close> and throws.
\<close>

datatype target = QueryByToken | Given "json list" | NotIterable

definition classify_connectionIds :: "json option \<Rightarrow> target" where
  "classify_connectionIds v =
     (case v of
        None \<Rightarrow> QueryByToken
      | Some JNull \<Rightarrow> QueryByToken
      | Some (JBool b) \<Rightarrow> if b then NotIterable else QueryByToken
      | Some (JNum n) \<Rightarrow> if n = 0 then QueryByToken else NotIterable
      | Some (JStr str) \<Rightarrow> if str = [] then QueryByToken else NotIterable
      | Some (JArr xs) \<Rightarrow> if xs = [] then QueryByToken else Given xs
      | Some (JObj props) \<Rightarrow>
          if map_of props ''length'' = Some (JNum 0) then QueryByToken else NotIterable)"

text \<open>
  One queue record. The result is the exception the record rethrows, if any, and the
  calls made. The recipients are sent to in the order of the list; the source starts all
  sends at once and awaits them all, so no send depends on another. A missing \<open>message\<close>
  is sent as \<open>JNull\<close>.
\<close>

definition process_record ::
    "(dbop \<Rightarrow> bool) \<Rightarrow> (json \<Rightarrow> json \<Rightarrow> exn option) \<Rightarrow> raw_body \<Rightarrow> store \<Rightarrow>
     exn option \<times> call list" where
  "process_record fails post recordBody s =
     (case recordBody of
        NoBody \<Rightarrow> (Some SyntaxError, [])
      | BadJson \<Rightarrow> (Some SyntaxError, [])
      | Json parsed \<Rightarrow>
          if parsed = JNull then (Some TypeError, [])
          else
            let connectionIds = get_field parsed ''connectionIds'';
                message = get_field parsed ''message''
            in (case (case classify_connectionIds connectionIds of
                       Given xs \<Rightarrow>
                         Inr (map Some xs)
                     | NotIterable \<Rightarrow> Inl TypeError
                     | QueryByToken \<Rightarrow>
                         (case message of
                            None \<Rightarrow> Inl TypeError
                          | Some m \<Rightarrow>
                              if m = JNull then Inl TypeError
                              else (case get_field m ''token'' of
                                      Some (JStr token) \<Rightarrow> resolveSubscribers fails token s
                                    | _ \<Rightarrow> Inl ValidationException))) of
                 Inl e \<Rightarrow> (Some e, [])
               | Inr targetConnectionIds \<Rightarrow>
                   if targetConnectionIds = [] then (None, [Log ''No connections found''])
                   else
                     (None,
                      concat (map (send_to_connection post
                                     (case message of None \<Rightarrow> JNull | Some m \<Rightarrow> m))
                                targetConnectionIds))))"

text \<open>
  The handler: the records in order; a record that throws ends the invocation with that
  exception. No line of the handler writes to the store: it comes back as it went in.
\<close>

fun broadcast_handler ::
    "(dbop \<Rightarrow> bool) \<Rightarrow> (json \<Rightarrow> json \<Rightarrow> exn option) \<Rightarrow> raw_body list \<Rightarrow> store \<Rightarrow>
     exn option \<times> store \<times> call list" where
  "broadcast_handler fails post [] s = (None, s, [])"
| "broadcast_handler fails post (r # Records) s =
     (case process_record fails post r s of
        (Some e, tr) \<Rightarrow> (Some e, s, tr @ [Log ''Error processing SQS message''])
      | (None, tr) \<Rightarrow>
          (case broadcast_handler fails post Records s of
             (res, s', tr') \<Rightarrow> (res, s', tr @ tr')))"

section \<open>Expiry sweeper: source/jobs/ttlSweeper.ts\<close>

text \<open>\<open>s.includes(sub)\<close> of JavaScript.\<close>

fun str_includes :: "string \<Rightarrow> string \<Rightarrow> bool" where
  "str_includes [] sub = (sub = [])"
| "str_includes (c # cs) sub = (take (length sub) (c # cs) = sub \<or> str_includes cs sub)"

text \<open>
  One page of a scan, with its filter expression, \<open>ExpressionAttributeNames\<close> and
  \<open>ExpressionAttributeValues\<close>. An expression that is not valid is refused. Otherwise
  the service evaluates at most \<open>Suc limit\<close> stored rows a page (it stops at 1 MB of
  data), returns those that pass the filter, and returns a \<open>LastEvaluatedKey\<close> when rows
  remain after the page. The position that the key stands for is modelled by the rows
  after it, in scan order; the first page starts from the whole table. \<open>page\<close> counts the
  pages, for the failure oracle.
\<close>

definition ScanCommand ::
    "(dbop \<Rightarrow> bool) \<Rightarrow> nat \<Rightarrow> table_id \<Rightarrow> nat \<Rightarrow> expr \<Rightarrow> (string \<times> string) list \<Rightarrow> item \<Rightarrow>
     item list \<Rightarrow> exn + item list \<times> item list option" where
  "ScanCommand fails limit T page FilterExpression names values unscanned =
     (if fails (Scan T page) then Inl ServiceError
      else if \<not> valid_expr names values FilterExpression then Inl ValidationException
      else Inr (filter (\<lambda>i. eval_expr names values i FilterExpression)
                  (take (Suc limit) unscanned),
                if drop (Suc limit) unscanned = [] then None
                else Some (drop (Suc limit) unscanned)))"

text \<open>
  Lines 44 to 51: the key of the delete, from the name of the table. \<open>None\<close> is a key
  with an undefined value, which the client library refuses.
\<close>

definition sweep_key :: "string \<Rightarrow> item \<Rightarrow> item option" where
  "sweep_key name item =
     (if str_includes name ''PriceConnections'' \<or> str_includes name ''BalanceConnections''
      then (case map_of item ''connectionId'' of
              None \<Rightarrow> None | Some v \<Rightarrow> Some [(''connectionId'', v)])
      else if str_includes name ''WebsocketNonce''
      then (case map_of item ''wallet'' of
              None \<Rightarrow> None | Some v \<Rightarrow> Some [(''wallet'', v)])
      else Some [])"

text \<open>Lines 44 to 58: the delete of one row.\<close>

definition delete_item :: "(dbop \<Rightarrow> bool) \<Rightarrow> table_id \<Rightarrow> string \<Rightarrow> item \<Rightarrow> store \<Rightarrow> exn + store" where
  "delete_item fails T name item s =
     (case sweep_key name item of
        None \<Rightarrow> Inl ValidationException
      | Some key \<Rightarrow> DeleteCommand fails T key s)"

text \<open>Lines 42 to 64: the rows of one page, each in its own try.\<close>

fun delete_items ::
    "(dbop \<Rightarrow> bool) \<Rightarrow> table_id \<Rightarrow> string \<Rightarrow> item list \<Rightarrow> store \<Rightarrow> nat \<Rightarrow> store \<times> nat" where
  "delete_items fails T name [] s deletedCount = (s, deletedCount)"
| "delete_items fails T name (item # Items) s deletedCount =
     (case delete_item fails T name item s of
        Inl deleteError \<Rightarrow> delete_items fails T name Items s deletedCount
      | Inr s' \<Rightarrow> delete_items fails T name Items s' (deletedCount + 1))"

text \<open>
  Lines 27 to 68: the do-while over the pages, each a scan with the filter expression
  \<open>ttl < :now AND attribute_exists(ttl)\<close> and no \<open>ExpressionAttributeNames\<close>. A scan that
  throws leaves the loop with the deletions made so far.
\<close>

function sweep_pages ::
    "(dbop \<Rightarrow> bool) \<Rightarrow> nat \<Rightarrow> table_id \<Rightarrow> string \<Rightarrow> int \<Rightarrow> nat \<Rightarrow> item list \<Rightarrow> store \<Rightarrow> nat \<Rightarrow>
     store \<times> (exn + nat)" where
  "sweep_pages fails limit T name now page unscanned s deletedCount =
     (case ScanCommand fails limit T page
             (CondAnd (CondLt (Name ''ttl'') (Placeholder '':now'')) (CondExists (Name ''ttl'')))
             [] [('':now'', N (of_int now))] unscanned of
        Inl e \<Rightarrow> (s, Inl e)
      | Inr (Items, lastEvaluatedKey) \<Rightarrow>
          (case delete_items fails T name Items s deletedCount of
             (s', deletedCount') \<Rightarrow>
               (case lastEvaluatedKey of
                  None \<Rightarrow> (s', Inr deletedCount')
                | Some rest \<Rightarrow>
                    sweep_pages fails limit T name now (Suc page) rest s' deletedCount')))"
  by pat_completeness auto
termination
  by (relation "measure (\<lambda>(fails, limit, T, name, now, page, unscanned, s, deletedCount).
                           length unscanned)")
     (auto simp: ScanCommand_def split: if_splits)

datatype sweep_log = Deleted nat string | ErrorSweeping string

text \<open>\<open>rname\<close> is \<open>Resource.<table>.name\<close>, the deployed name of each table.\<close>

definition tablesToSweep :: "(table_id \<Rightarrow> string) \<Rightarrow> (table_id \<times> string \<times> string) list" where
  "tablesToSweep rname =
     [(PriceConnectionsTable, rname PriceConnectionsTable, ''Price connections''),
      (BalanceConnectionsTable, rname BalanceConnectionsTable, ''Balance connections''),
      (WebsocketNonceTable, rname WebsocketNonceTable, ''WebSocket nonces'')]"

fun sweep_tables ::
    "(dbop \<Rightarrow> bool) \<Rightarrow> nat \<Rightarrow> int \<Rightarrow> (table_id \<times> string \<times> string) list \<Rightarrow> store \<Rightarrow>
     store \<times> sweep_log list" where
  "sweep_tables fails limit now [] s = (s, [])"
| "sweep_tables fails limit now ((T, name, description) # tables) s =
     (case sweep_pages fails limit T name now 0 (s T) s 0 of
        (s', Inl e) \<Rightarrow>
          (case sweep_tables fails limit now tables s' of
             (s'', logs) \<Rightarrow> (s'', ErrorSweeping description # logs))
      | (s', Inr deletedCount) \<Rightarrow>
          (case sweep_tables fails limit now tables s' of
             (s'', logs) \<Rightarrow> (s'', Deleted deletedCount description # logs)))"

text \<open>\<open>nowMs\<close> is what \<open>Date.now()\<close> returns.\<close>

definition ttlSweeper_handler ::
    "(dbop \<Rightarrow> bool) \<Rightarrow> nat \<Rightarrow> (table_id \<Rightarrow> string) \<Rightarrow> int \<Rightarrow> store \<Rightarrow> store \<times> sweep_log list" where
  "ttlSweeper_handler fails limit rname nowMs s =
     sweep_tables fails limit (nowMs div 1000) (tablesToSweep rname) s"

section \<open>Publisher: source/webhooks/heliusPrice.ts\<close>

record payload =
  ptype :: string
  accounts :: "(string \<times> real) list"
  txSignature :: string
  slot :: real
  timestamp :: real

definition parse_account :: "json \<Rightarrow> (string \<times> real) option" where
  "parse_account j =
     (case (get_field j ''address'', get_field j ''nativeBalanceChange'') of
        (Some (JStr a), Some (JNum c)) \<Rightarrow> Some (a, c)
      | _ \<Rightarrow> None)"

definition HeliusPriceWebhookSchema_parse :: "json \<Rightarrow> exn + payload" where
  "HeliusPriceWebhookSchema_parse j =
     (case (get_field j ''type'', get_field j ''accounts'', get_field j ''txSignature'',
            get_field j ''slot'', get_field j ''timestamp'') of
        (Some (JStr ty), Some (JArr accs), Some (JStr sg), Some (JNum sl), Some (JNum ts)) \<Rightarrow>
          (case those (map parse_account accs) of
             None \<Rightarrow> Inl ZodError
           | Some as \<Rightarrow>
               Inr \<lparr>ptype = ty, accounts = as, txSignature = sg, slot = sl, timestamp = ts\<rparr>)
      | _ \<Rightarrow> Inl ZodError)"

text \<open>Over the reals: the rounding of the floating-point division is not modelled.\<close>

definition calculatePrice :: "(string \<times> real) list \<Rightarrow> real" where
  "calculatePrice accs =
     (let solChange = (case map_of accs ''vault_sol'' of None \<Rightarrow> 0 | Some c \<Rightarrow> c);
          tokenChange = (case map_of accs ''user'' of None \<Rightarrow> 0 | Some c \<Rightarrow> c)
      in if tokenChange = 0 then 0
         else \<bar>solChange / 1000000000\<bar> / \<bar>tokenChange\<bar>)"

text \<open>
  The call to the edge worker: \<open>fetch\<close> throws, or answers with \<open>ok\<close>, a status and a
  body text (\<open>None\<close> when reading the text throws).
\<close>

datatype fetch_result = FetchThrows | FetchResponse bool nat "string option"

text \<open>
  \<open>broadcastViaSQS\<close>, lines 140 to 158. \<open>sqs_fails n\<close> says whether the \<open>n\<close>-th send of
  this invocation to the queue throws.
\<close>

definition broadcastViaSQS :: "(nat \<Rightarrow> bool) \<Rightarrow> nat \<Rightarrow> json \<Rightarrow> json list \<Rightarrow> exn + json list" where
  "broadcastViaSQS sqs_fails n message queue =
     (if sqs_fails n then Inl ServiceError
      else Inr (queue @ [JObj [(''connectionIds'', JArr []), (''message'', message)]]))"

text \<open>Lines 106 to 137: the choice of engine, and the fallback.\<close>

definition dispatch ::
    "(string \<rightharpoonup> string) \<Rightarrow> fetch_result \<Rightarrow> (nat \<Rightarrow> bool) \<Rightarrow> json \<Rightarrow> json list \<Rightarrow>
     exn + json list" where
  "dispatch env edge sqs_fails broadcastMessage queue =
     (let useEdgeBroadcast = (env ''USE_EDGE_BROADCAST'' = Some ''true'') in
      if useEdgeBroadcast \<and> truthy (env ''EDGE_BROADCAST_URL'') \<and>
         truthy (env ''EDGE_BROADCAST_SECRET'')
      then (case edge of
              FetchThrows \<Rightarrow> broadcastViaSQS sqs_fails 0 broadcastMessage queue
            | FetchResponse ok status text \<Rightarrow>
                if \<not> ok then
                  (case text of
                     None \<Rightarrow> broadcastViaSQS sqs_fails 0 broadcastMessage queue
                   | Some t \<Rightarrow>
                       (case broadcastViaSQS sqs_fails 0 broadcastMessage queue of
                          Inl e \<Rightarrow> broadcastViaSQS sqs_fails 1 broadcastMessage queue
                        | Inr queue' \<Rightarrow> Inr queue'))
                else Inr queue)
      else broadcastViaSQS sqs_fails 0 broadcastMessage queue)"

text \<open>Line 58: \<open>event.headers["x-token"] || "DROP"\<close>\<close>

definition price_token :: "event \<Rightarrow> string" where
  "price_token ev =
     (case headers ev ''x-token'' of
        None \<Rightarrow> ''DROP''
      | Some t \<Rightarrow> if t = [] then ''DROP'' else t)"

text \<open>Lines 97 to 104.\<close>

definition broadcastMessage :: "string \<Rightarrow> real \<Rightarrow> payload \<Rightarrow> json" where
  "broadcastMessage token price p =
     JObj [(''type'', JStr ''PRICE_UPDATE''),
           (''token'', JStr token),
           (''price'', JNum price),
           (''timestamp'', JNum (timestamp p)),
           (''slot'', JNum (slot p)),
           (''txSignature'', JStr (txSignature p))]"

text \<open>
  The handler. \<open>apiKey\<close> is \<open>Resource.HeliusApiKey.value\<close>, \<open>env\<close> is \<open>process.env\<close>, and
  \<open>toDateStr\<close> is the date of a timestamp as \<open>YYYYMMDD\<close> (\<open>None\<close> when \<open>toISOString\<close> throws).
\<close>

definition heliusPrice_handler ::
    "string \<Rightarrow> (string \<rightharpoonup> string) \<Rightarrow> (real \<Rightarrow> string option) \<Rightarrow> (dbop \<Rightarrow> bool) \<Rightarrow>
     fetch_result \<Rightarrow> (nat \<Rightarrow> bool) \<Rightarrow> int \<Rightarrow> event \<Rightarrow> store \<Rightarrow> json list \<Rightarrow>
     response \<times> store \<times> json list" where
  "heliusPrice_handler apiKey env toDateStr fails edge sqs_fails now ev s queue =
     (let authHeader = js_or (headers ev ''authorization'') (headers ev ''Authorization'');
          expectedAuth = ''Bearer '' @ apiKey
      in if authHeader \<noteq> Some expectedAuth
         then (Response 401 (ErrorBody ''Unauthorized''), s, queue)
         else
           (case parse_body (body ev) of
              Inl e \<Rightarrow> (Response 500 (ErrorBody ''Internal server error''), s, queue)
            | Inr parsed \<Rightarrow>
                (case HeliusPriceWebhookSchema_parse parsed of
                   Inl e \<Rightarrow> (Response 400 InvalidPayloadBody, s, queue)
                 | Inr p \<Rightarrow>
                     let token = price_token ev;
                         price = calculatePrice (accounts p)
                     in (case toDateStr (timestamp p) of
                           None \<Rightarrow> (Response 500 (ErrorBody ''Internal server error''), s, queue)
                         | Some dateStr \<Rightarrow>
                             let ttl = now div 1000 + 14 * 24 * 60 * 60 in
                             (case PutCommand fails PriceTimeSeriesTable
                                     [(''tokenDate'', S (token @ ''#'' @ dateStr)),
                                      (''timestamp'', N (timestamp p)),
                                      (''price'', N price),
                                      (''source'', S ''amm''),
                                      (''slot'', N (slot p)),
                                      (''txSignature'', S (txSignature p)),
                                      (''ttl'', N (of_int ttl))] s of
                                Inl e \<Rightarrow>
                                  (Response 500 (ErrorBody ''Internal server error''), s, queue)
                              | Inr s' \<Rightarrow>
                                  (case dispatch env edge sqs_fails
                                          (broadcastMessage token price p) queue of
                                        Inl e \<Rightarrow>
                                          (Response 500 (ErrorBody ''Internal server error''),
                                           s', queue)
                                      | Inr queue' \<Rightarrow>
                                          (Response 200 (StatusBody ''accepted''),
                                           s', queue')))))))"

section \<open>Edge actor: the Durable Object BroadcastRoom\<close>

text \<open>A socket is its handle. \<open>connections\<close> is a JavaScript \<open>Map\<close>, in insertion order.\<close>

record WebSocketInfo =
  socket :: nat
  connectedAt :: int
  lastPing :: int

record BroadcastRoom =
  connections :: "(string \<times> WebSocketInfo) list"
  lastActivity :: int

definition Map_set :: "'k \<Rightarrow> 'v \<Rightarrow> ('k \<times> 'v) list \<Rightarrow> ('k \<times> 'v) list" where
  "Map_set k v m =
     (if k \<in> set (map fst m) then map (\<lambda>(k', v'). if k' = k then (k', v) else (k', v')) m
      else m @ [(k, v)])"

definition Map_delete :: "'k \<Rightarrow> ('k \<times> 'v) list \<Rightarrow> ('k \<times> 'v) list" where
  "Map_delete k m = filter (\<lambda>(k', v'). k' \<noteq> k) m"

text \<open>
  A request, as the worker and the room read it: the method, the path of the URL, the
  headers and the body.
\<close>

record request =
  http_method :: string
  pathname :: string
  req_headers :: "string \<rightharpoonup> string"
  req_body :: raw_body

datatype edge_body =
  TextBody string | SuccessBody nat | HealthyBody | WebSocketBody nat

datatype edge_response = EdgeResponse (status: nat) (edgeBody: edge_body)

text \<open>
  What a socket is asked to do. A broadcast frame is the message with its \<open>timestamp\<close>
  set to \<open>Date.now()\<close>; the welcome frame carries the connection id.
\<close>

datatype frame = BroadcastFrame json int | ConnectedFrame string int

datatype edge_call = AcceptWebSocket nat | SocketSend nat frame | SocketClose nat

text \<open>
  Lines 171 to 178 of \<open>broadcast\<close>: a send to every entry, and the ids whose send threw.
  \<open>send_throws sock\<close> says whether a send on the socket throws.
\<close>

fun send_each ::
    "(nat \<Rightarrow> bool) \<Rightarrow> frame \<Rightarrow> (string \<times> WebSocketInfo) list \<Rightarrow> string list \<times> edge_call list" where
  "send_each send_throws fr [] = ([], [])"
| "send_each send_throws fr ((cid, info) # rest) =
     (case send_each send_throws fr rest of
        (closedConnections, tr) \<Rightarrow>
          if send_throws (socket info)
          then (cid # closedConnections, SocketSend (socket info) fr # tr)
          else (closedConnections, SocketSend (socket info) fr # tr))"

definition broadcast ::
    "(nat \<Rightarrow> bool) \<Rightarrow> int \<Rightarrow> json \<Rightarrow> BroadcastRoom \<Rightarrow> BroadcastRoom \<times> edge_call list" where
  "broadcast send_throws now message room =
     (case send_each send_throws (BroadcastFrame message now) (connections room) of
        (closedConnections, tr) \<Rightarrow>
          (room\<lparr>connections := fold Map_delete closedConnections (connections room)\<rparr>, tr))"

definition cleanupStaleConnections :: "int \<Rightarrow> BroadcastRoom \<Rightarrow> BroadcastRoom \<times> edge_call list" where
  "cleanupStaleConnections now room =
     (let staleTimeout = 5 * 60 * 1000;
          stale = filter (\<lambda>(cid, info). now - lastPing info > staleTimeout) (connections room)
      in (room\<lparr>connections := fold Map_delete (map fst stale) (connections room)\<rparr>,
          map (\<lambda>(cid, info). SocketClose (socket info)) stale))"

text \<open>
  \<open>fetch\<close> of the room. \<open>uuid\<close> is what \<open>crypto.randomUUID()\<close> returns, \<open>server\<close> the
  server end of the new socket pair and \<open>rnd\<close> what \<open>Math.random()\<close> returns. The welcome
  send is outside any try: when it throws, so does \<open>fetch\<close>.
\<close>

definition BroadcastRoom_fetch ::
    "(nat \<Rightarrow> bool) \<Rightarrow> int \<Rightarrow> string \<Rightarrow> nat \<Rightarrow> real \<Rightarrow> request \<Rightarrow> BroadcastRoom \<Rightarrow>
     (exn + edge_response) \<times> BroadcastRoom \<times> edge_call list" where
  "BroadcastRoom_fetch send_throws now uuid server rnd req room =
     (let room1 = room\<lparr>lastActivity := now\<rparr> in
      if pathname req = ''/broadcast'' \<and> http_method req = ''POST'' then
        (case req_body req of
           Json message \<Rightarrow>
             (case broadcast send_throws now message room1 of
                (room2, tr) \<Rightarrow>
                  (Inr (EdgeResponse 200 (SuccessBody (length (connections room2)))), room2, tr))
         | _ \<Rightarrow> (Inr (EdgeResponse 500 (TextBody ''Broadcast failed'')), room1, []))
      else if req_headers req ''Upgrade'' = Some ''websocket'' then
        (let room2 = room1\<lparr>connections :=
                       Map_set uuid \<lparr>socket = server, connectedAt = now, lastPing = now\<rparr>
                         (connections room1)\<rparr>;
             tr = [AcceptWebSocket server, SocketSend server (ConnectedFrame uuid now)]
         in if send_throws server then (Inl SendError, room2, tr)
            else if rnd < 0.1 then
              (case cleanupStaleConnections now room2 of
                 (room3, tr') \<Rightarrow> (Inr (EdgeResponse 101 (WebSocketBody server)), room3, tr @ tr'))
            else (Inr (EdgeResponse 101 (WebSocketBody server)), room2, tr))
      else (Inr (EdgeResponse 404 (TextBody ''Not found'')), room1, []))"

section \<open>Edge worker: the routing \<open>fetch\<close>\<close>

text \<open>\<open>s.split(c)\<close> and \<open>s.startsWith(p)\<close> of JavaScript.\<close>

fun split_on :: "char \<Rightarrow> string \<Rightarrow> string list" where
  "split_on c [] = [[]]"
| "split_on c (x # xs) =
     (if x = c then [] # split_on c xs
      else (case split_on c xs of
              [] \<Rightarrow> [[x]]
            | p # ps \<Rightarrow> (x # p) # ps))"

definition startsWith :: "string \<Rightarrow> string \<Rightarrow> bool" where
  "startsWith s p = (take (length p) s = p)"

text \<open>\<open>url.pathname.split("/")[2]\<close>: undefined when there is no third part.\<close>

definition path_token :: "string \<Rightarrow> string option" where
  "path_token path =
     (let parts = split_on CHR ''/'' path in
      if 2 < length parts then Some (parts ! 2) else None)"

text \<open>
  The worker. \<open>secret\<close> is \<open>env.WEBHOOK_SECRET\<close>, \<open>origins\<close> is \<open>env.ALLOWED_ORIGINS\<close>, and
  \<open>rooms\<close> is the namespace \<open>env.BROADCAST_ROOM\<close>: the room of each name. The result
  carries the requests forwarded to a room, with the name of the room.
\<close>

definition worker_fetch ::
    "string \<Rightarrow> string \<Rightarrow> (nat \<Rightarrow> bool) \<Rightarrow> int \<Rightarrow> string \<Rightarrow> nat \<Rightarrow> real \<Rightarrow> request \<Rightarrow>
     (string \<Rightarrow> BroadcastRoom) \<Rightarrow>
     (exn + edge_response) \<times> (string \<Rightarrow> BroadcastRoom) \<times> (string \<times> request) list \<times>
     edge_call list" where
  "worker_fetch secret origins send_throws now uuid server rnd req rooms =
     (if startsWith (pathname req) ''/broadcast/'' \<and> http_method req = ''POST'' then
        (let token = path_token (pathname req) in
         if \<not> truthy token then (Inr (EdgeResponse 400 (TextBody ''Token required'')), rooms, [], [])
         else
           let authHeader = req_headers req ''Authorization'' in
           if authHeader \<noteq> Some (''Bearer '' @ secret)
           then (Inr (EdgeResponse 401 (TextBody ''Unauthorized'')), rooms, [], [])
           else
             (case (token, req_body req) of
                (Some tok, Json message) \<Rightarrow>
                  (let fwd = \<lparr>http_method = ''POST'', pathname = ''/broadcast'',
                              req_headers = [''Content-Type'' \<mapsto> ''application/json''],
                              req_body = Json message\<rparr>
                   in case BroadcastRoom_fetch send_throws now uuid server rnd fwd (rooms tok) of
                        (res, room', tr) \<Rightarrow>
                          (case res of
                             Inl e \<Rightarrow>
                               (Inr (EdgeResponse 500 (TextBody ''Internal error'')),
                                rooms(tok := room'), [(tok, fwd)], tr)
                           | Inr response \<Rightarrow>
                               (Inr response, rooms(tok := room'), [(tok, fwd)], tr)))
              | _ \<Rightarrow> (Inr (EdgeResponse 500 (TextBody ''Internal error'')), rooms, [], [])))
      else if startsWith (pathname req) ''/ws/'' then
        (let token = path_token (pathname req) in
         if \<not> truthy token then (Inr (EdgeResponse 400 (TextBody ''Token required'')), rooms, [], [])
         else if req_headers req ''Upgrade'' \<noteq> Some ''websocket''
         then (Inr (EdgeResponse 426 (TextBody ''Expected WebSocket'')), rooms, [], [])
         else if truthy (req_headers req ''Origin'') \<and>
                 (case req_headers req ''Origin'' of
                    None \<Rightarrow> False
                  | Some origin \<Rightarrow> origin \<notin> set (split_on CHR '','' origins))
         then (Inr (EdgeResponse 403 (TextBody ''Origin not allowed'')), rooms, [], [])
         else
           (case token of
              None \<Rightarrow> (Inr (EdgeResponse 400 (TextBody ''Token required'')), rooms, [], [])
            | Some tok \<Rightarrow>
                (case BroadcastRoom_fetch send_throws now uuid server rnd req (rooms tok) of
                   (res, room', tr) \<Rightarrow> (res, rooms(tok := room'), [(tok, req)], tr))))
      else if pathname req = ''/health'' then (Inr (EdgeResponse 200 HealthyBody), rooms, [], [])
      else (Inr (EdgeResponse 404 (TextBody ''Not found'')), rooms, [], []))"

section \<open>Concrete inputs\<close>

text \<open>
  A connection attempt with its three parameters in the headers, a nonce table with one
  row, a nonce request and a subscribe request.
\<close>

definition connect_event :: "string \<Rightarrow> string \<Rightarrow> string \<Rightarrow> event" where
  "connect_event w sg m =
     \<lparr>connectionId = ''conn-1'', domainName = ''ws.example'', stage = ''prod'',
      headers = [''wallet'' \<mapsto> w, ''signature'' \<mapsto> sg, ''message'' \<mapsto> m],
      queryStringParameters = Map.empty, body = NoBody\<rparr>"

definition nonce_store :: "string \<Rightarrow> string \<Rightarrow> store" where
  "nonce_store w n =
     (\<lambda>T. [])(WebsocketNonceTable := [[(''wallet'', S w), (''nonce'', S n), (''ttl'', N 600)]])"

definition nonce_request :: "string \<Rightarrow> event" where
  "nonce_request w =
     \<lparr>connectionId = [], domainName = ''api.example'', stage = ''prod'',
      headers = Map.empty, queryStringParameters = [''wallet'' \<mapsto> w], body = NoBody\<rparr>"

definition subscribe_event :: "string \<Rightarrow> string \<Rightarrow> event" where
  "subscribe_event c t =
     \<lparr>connectionId = c, domainName = ''ws.example'', stage = ''prod'',
      headers = Map.empty, queryStringParameters = Map.empty,
      body = Json (JObj [(''action'', JStr ''subscribePrice''), (''token'', JStr t)])\<rparr>"

text \<open>
  Two connections subscribed to \<open>TOK\<close>, a queue record that names both as its
  recipients, and a gateway on which \<open>C2\<close> is gone.
\<close>

definition two_subscribers :: store where
  "two_subscribers =
     (\<lambda>T. [])(PriceConnectionsTable :=
        [[(''connectionId'', S ''C1''), (''token'', S ''TOK''), (''ttl'', N 5000)],
         [(''connectionId'', S ''C2''), (''token'', S ''TOK''), (''ttl'', N 5000)]])"

definition price_update :: json where
  "price_update =
     JObj [(''type'', JStr ''PRICE_UPDATE''), (''token'', JStr ''TOK''), (''price'', JNum 1.23),
           (''timestamp'', JNum 1000)]"

definition queue_record :: raw_body where
  "queue_record =
     Json (JObj [(''connectionIds'', JArr [JStr ''C1'', JStr ''C2'']), (''message'', price_update)])"

definition gone_second :: "json \<Rightarrow> json \<Rightarrow> exn option" where
  "gone_second c d = (if c = JStr ''C2'' then Some GoneException else None)"

text \<open>
  A store for the sweeper, at time 1000 s: two expired price rows and a live one, and one
  expired nonce; and deployed table names.
\<close>

definition sweep_store :: store where
  "sweep_store =
     (\<lambda>T. [])
       (PriceConnectionsTable :=
          [[(''connectionId'', S ''C1''), (''token'', S ''TOK''), (''ttl'', N 100)],
           [(''connectionId'', S ''C2''), (''token'', S ''TOK''), (''ttl'', N 100)],
           [(''connectionId'', S ''C3''), (''token'', S ''TOK''), (''ttl'', N 5000)]],
        WebsocketNonceTable :=
          [[(''wallet'', S ''W''), (''nonce'', S ''n1''), (''ttl'', N 50)]])"

definition prod_names :: "table_id \<Rightarrow> string" where
  "prod_names T =
     (case T of
        PriceConnectionsTable \<Rightarrow> ''server-prod-PriceConnectionsTable''
      | BalanceConnectionsTable \<Rightarrow> ''server-prod-BalanceConnectionsTable''
      | PriceTimeSeriesTable \<Rightarrow> ''server-prod-PriceTimeSeriesTable''
      | WebsocketNonceTable \<Rightarrow> ''server-prod-WebsocketNonceTable'')"

text \<open>
  A price webhook for \<open>TOK\<close> (2 SOL against 4 tokens), and an environment that selects
  the edge engine.
\<close>

definition price_webhook :: event where
  "price_webhook =
     \<lparr>connectionId = [], domainName = ''api.example'', stage = ''prod'',
      headers = [''authorization'' \<mapsto> ''Bearer key-1'', ''x-token'' \<mapsto> ''TOK''],
      queryStringParameters = Map.empty,
      body = Json (JObj [(''type'', JStr ''SWAP''),
                         (''accounts'',
                          JArr [JObj [(''address'', JStr ''vault_sol''),
                                      (''nativeBalanceChange'', JNum 2000000000)],
                                JObj [(''address'', JStr ''user''),
                                      (''nativeBalanceChange'', JNum (- 4))]]),
                         (''txSignature'', JStr ''tx-1''),
                         (''slot'', JNum 7),
                         (''timestamp'', JNum 1000)])\<rparr>"

definition edge_env :: "string \<rightharpoonup> string" where
  "edge_env =
     [''USE_EDGE_BROADCAST'' \<mapsto> ''true'', ''EDGE_BROADCAST_URL'' \<mapsto> ''https://edge.example'',
      ''EDGE_BROADCAST_SECRET'' \<mapsto> ''secret-1'']"

text \<open>A room with three sockets.\<close>

definition socket_info :: "nat \<Rightarrow> WebSocketInfo" where
  "socket_info sock = \<lparr>socket = sock, connectedAt = 0, lastPing = 0\<rparr>"

definition three_sockets :: BroadcastRoom where
  "three_sockets =
     \<lparr>connections = [(''a'', socket_info 1), (''b'', socket_info 2), (''c'', socket_info 3)],
      lastActivity = 0\<rparr>"

text \<open>A publish request to the edge worker, and a namespace whose room \<open>TOK\<close> has the three sockets.\<close>

definition publish_request :: "string \<Rightarrow> string option \<Rightarrow> request" where
  "publish_request path auth =
     \<lparr>http_method = ''POST'', pathname = path,
      req_headers = (\<lambda>h. if h = ''Authorization'' then auth else None),
      req_body = Json price_update\<rparr>"

definition one_room :: "string \<Rightarrow> BroadcastRoom" where
  "one_room name =
     (if name = ''TOK'' then three_sockets else \<lparr>connections = [], lastActivity = 0\<rparr>)"

section \<open>The store keeps its tables well-formed\<close>

text \<open>
  Well-formedness is an invariant of the store: the empty table has it, and a put or a
  delete that goes through keeps it and leaves the other tables alone.
\<close>

lemma wf_table_empty: "wf_table T []"
  by (simp add: wf_table_def)

lemma PutCommand_wf:
  assumes "wf_table T (s T)" "PutCommand fails T i s = Inr s'"
  shows "wf_table T (s' T)"
proof -
  have s': "s' T = filter (\<lambda>j. primaryKey T j \<noteq> primaryKey T i) (s T) @ [i]"
    and keys: "list_all (\<lambda>k. map_of i k \<noteq> None) (keySchema T)"
    using assms(2)
    by (auto simp: PutCommand_def list_all_iff list_ex_iff split: if_splits)
  have "distinct (map (primaryKey T) (filter (\<lambda>j. primaryKey T j \<noteq> primaryKey T i) (s T)))"
    using assms(1) by (simp add: wf_table_def distinct_map_filter)
  moreover have "primaryKey T i \<notin>
      set (map (primaryKey T) (filter (\<lambda>j. primaryKey T j \<noteq> primaryKey T i) (s T)))"
    by auto
  ultimately show ?thesis
    using assms(1) keys by (simp add: wf_table_def s' list_all_iff)
qed

lemma DeleteCommand_wf:
  assumes "wf_table T (s T)" "DeleteCommand fails T key s = Inr s'"
  shows "wf_table T (s' T)"
proof -
  have s': "s' T = filter (\<lambda>j. primaryKey T j \<noteq> primaryKey T key) (s T)"
    using assms(2) by (auto simp: DeleteCommand_def split: if_splits)
  show ?thesis
    using assms(1) by (simp add: wf_table_def s' distinct_map_filter list_all_iff)
qed

lemma PutCommand_other:
  "PutCommand fails T i s = Inr s' \<Longrightarrow> T' \<noteq> T \<Longrightarrow> s' T' = s T'"
  by (auto simp: PutCommand_def split: if_splits)

lemma DeleteCommand_other:
  "DeleteCommand fails T key s = Inr s' \<Longrightarrow> T' \<noteq> T \<Longrightarrow> s' T' = s T'"
  by (auto simp: DeleteCommand_def split: if_splits)

section \<open>The connection authenticator\<close>
lemma authenticate_cases:
  "authenticate verify fails w sg m s =
     (let key = [(''wallet'', S w)]; g = Db (Get WebsocketNonceTable key);
          v = Verify m sg w; d = Db (Delete WebsocketNonceTable key) in
      if fails (Get WebsocketNonceTable key)
      then (Response 500 (ErrorBody ''Internal server error''), s, [g])
      else if nonce_mismatch (stored_nonce s w) m
      then (Response 401 (ErrorBody ''Invalid or expired nonce''), s, [g])
      else if verify m sg w = None
      then (Response 401 (ErrorBody ''Invalid signature format''), s, [g, v])
      else if verify m sg w = Some False
      then (Response 401 (ErrorBody ''Invalid signature''), s, [g, v])
      else if fails (Delete WebsocketNonceTable key)
      then (Response 500 (ErrorBody ''Internal server error''), s, [g, v, d])
      else (Response 200 (MessageBody ''Connected''),
            s(WebsocketNonceTable :=
                filter (\<lambda>j. map_of j ''wallet'' \<noteq> Some (S w)) (s WebsocketNonceTable)),
            [g, v, d]))"
  by (auto simp: authenticate_def GetCommand_def DeleteCommand_def primaryKey_def Let_def
                 stored_nonce_def
           split: option.splits sum.splits bool.splits)

lemma connect_handler_present:
  assumes "auth_param ev ''wallet'' = Some w" "w \<noteq> []"
    and "auth_param ev ''signature'' = Some sg" "sg \<noteq> []"
    and "auth_param ev ''message'' = Some m" "m \<noteq> []"
  shows "connect_handler verify fails ev s = authenticate verify fails w sg m s"
  using assms by (simp add: connect_handler_def truthy_def auth_param_def)

lemma stored_nonce_deleted:
  "stored_nonce (s(WebsocketNonceTable :=
        filter (\<lambda>j. map_of j ''wallet'' \<noteq> Some (S w)) (s WebsocketNonceTable))) w = None"
  by (simp add: stored_nonce_def find_None_iff)

text \<open>Whatever the request, a signature is verified only against the nonce that is stored.\<close>

lemma connect_verify_only_on_match:
  assumes "Verify a b c \<in> set (snd (snd (connect_handler verify fails ev s)))"
  shows "\<exists>w sg m. auth_param ev ''wallet'' = Some w \<and> auth_param ev ''signature'' = Some sg \<and>
            auth_param ev ''message'' = Some m \<and> a = m \<and> b = sg \<and> c = w \<and>
            \<not> nonce_mismatch (stored_nonce s w) m"
proof (cases "truthy (auth_param ev ''wallet'') \<and> truthy (auth_param ev ''signature'') \<and>
              truthy (auth_param ev ''message'')")
  case False
  then have "snd (snd (connect_handler verify fails ev s)) = []"
    by (auto simp: connect_handler_def)
  with assms show ?thesis by simp
next
  case True
  then obtain w sg m where p: "auth_param ev ''wallet'' = Some w" "w \<noteq> []"
      "auth_param ev ''signature'' = Some sg" "sg \<noteq> []"
      "auth_param ev ''message'' = Some m" "m \<noteq> []"
    by (auto simp: truthy_def split: option.splits)
  from assms show ?thesis
    unfolding connect_handler_present [OF p] authenticate_cases
    using p by (auto simp: Let_def split: if_splits)
qed

text \<open>
  C5. A connection attempt that carries its three parameters, against a wallet with no
  stored nonce or with a stored nonce that differs from the one presented, is answered
  401 "Invalid or expired nonce" whatever the signature and whatever the verifier would
  say; its only call is the lookup, so no signature verification runs and the store is
  as before. A signature verification appears among the calls only when the stored
  nonce equals the presented one; then it does run, and a signature that does not
  verify is answered 401 "Invalid signature". The same holds of any request, with or
  without its parameters: what is verified is the presented nonce, and it is the stored
  one.
\<close>

theorem connect_nonce_gate_before_signature:
  assumes "auth_param ev ''wallet'' = Some w" "w \<noteq> []"
    and "auth_param ev ''signature'' = Some sg" "sg \<noteq> []"
    and "auth_param ev ''message'' = Some m" "m \<noteq> []"
  shows "(\<not> fails (Get WebsocketNonceTable [(''wallet'', S w)]) \<and>
          nonce_mismatch (stored_nonce s w) m \<longrightarrow>
            connect_handler verify fails ev s =
              (Response 401 (ErrorBody ''Invalid or expired nonce''), s,
               [Db (Get WebsocketNonceTable [(''wallet'', S w)])])) \<and>
         (\<forall>a b c. Verify a b c \<in> set (snd (snd (connect_handler verify fails ev s))) \<longrightarrow>
            \<not> nonce_mismatch (stored_nonce s w) m) \<and>
         (\<not> fails (Get WebsocketNonceTable [(''wallet'', S w)]) \<and>
          \<not> nonce_mismatch (stored_nonce s w) m \<longrightarrow>
            Verify m sg w \<in> set (snd (snd (connect_handler verify fails ev s))) \<and>
            (verify m sg w = Some False \<longrightarrow>
               fst (connect_handler verify fails ev s) =
                 Response 401 (ErrorBody ''Invalid signature''))) \<and>
         (\<forall>ev' a b c.
            Verify a b c \<in> set (snd (snd (connect_handler verify fails ev' s))) \<longrightarrow>
            (\<exists>w' sg' m'. auth_param ev' ''wallet'' = Some w' \<and>
               auth_param ev' ''signature'' = Some sg' \<and> auth_param ev' ''message'' = Some m' \<and>
               a = m' \<and> b = sg' \<and> c = w' \<and> \<not> nonce_mismatch (stored_nonce s w') m'))"
proof -
  have "(\<not> fails (Get WebsocketNonceTable [(''wallet'', S w)]) \<and>
          nonce_mismatch (stored_nonce s w) m \<longrightarrow>
            connect_handler verify fails ev s =
              (Response 401 (ErrorBody ''Invalid or expired nonce''), s,
               [Db (Get WebsocketNonceTable [(''wallet'', S w)])])) \<and>
         (\<forall>a b c. Verify a b c \<in> set (snd (snd (connect_handler verify fails ev s))) \<longrightarrow>
            \<not> nonce_mismatch (stored_nonce s w) m) \<and>
         (\<not> fails (Get WebsocketNonceTable [(''wallet'', S w)]) \<and>
          \<not> nonce_mismatch (stored_nonce s w) m \<longrightarrow>
            Verify m sg w \<in> set (snd (snd (connect_handler verify fails ev s))) \<and>
            (verify m sg w = Some False \<longrightarrow>
               fst (connect_handler verify fails ev s) =
                 Response 401 (ErrorBody ''Invalid signature'')))"
    unfolding connect_handler_present [OF assms] authenticate_cases
    by (simp add: Let_def)
  then show ?thesis
    using connect_verify_only_on_match [of _ _ _ verify fails _ s] by blast
qed

lemma connect_event_params:
  "w \<noteq> [] \<Longrightarrow> auth_param (connect_event w sg m) ''wallet'' = Some w"
  "sg \<noteq> [] \<Longrightarrow> auth_param (connect_event w sg m) ''signature'' = Some sg"
  "m \<noteq> [] \<Longrightarrow> auth_param (connect_event w sg m) ''message'' = Some m"
  by (simp_all add: auth_param_def connect_event_def js_or_def truthy_def)

lemma stored_nonce_nonce_store:
  "stored_nonce (nonce_store w n) w = Some [(''wallet'', S w), (''nonce'', S n), (''ttl'', N 600)]"
  by (simp add: stored_nonce_def nonce_store_def)

text \<open>
  The gate at a stored nonce \<open>n1\<close>: presenting \<open>n2\<close> is refused at the nonce although the
  verifier would accept, and presenting \<open>n1\<close> with a signature that does not verify is
  refused at the signature.
\<close>

theorem connect_nonce_gate_before_signature_witness:
  "auth_param (connect_event ''W'' ''sig'' ''n2'') ''wallet'' = Some ''W'' \<and>
   nonce_mismatch (stored_nonce (nonce_store ''W'' ''n1'') ''W'') ''n2'' \<and>
   connect_handler (\<lambda>m sg w. Some True) (\<lambda>op. False) (connect_event ''W'' ''sig'' ''n2'')
       (nonce_store ''W'' ''n1'') =
     (Response 401 (ErrorBody ''Invalid or expired nonce''), nonce_store ''W'' ''n1'',
      [Db (Get WebsocketNonceTable [(''wallet'', S ''W'')])]) \<and>
   \<not> nonce_mismatch (stored_nonce (nonce_store ''W'' ''n1'') ''W'') ''n1'' \<and>
   fst (connect_handler (\<lambda>m sg w. Some False) (\<lambda>op. False) (connect_event ''W'' ''sig'' ''n1'')
       (nonce_store ''W'' ''n1'')) = Response 401 (ErrorBody ''Invalid signature'')"
  using connect_nonce_gate_before_signature
          [of "connect_event ''W'' ''sig'' ''n2''" "''W''" "''sig''" "''n2''"
              "\<lambda>op. False" "nonce_store ''W'' ''n1''" "\<lambda>m sg w. Some True"]
        connect_nonce_gate_before_signature
          [of "connect_event ''W'' ''sig'' ''n1''" "''W''" "''sig''" "''n1''"
              "\<lambda>op. False" "nonce_store ''W'' ''n1''" "\<lambda>m sg w. Some False"]
  by (simp add: connect_event_params stored_nonce_nonce_store nonce_mismatch_def)


lemma generateNonce_store:
  assumes "w \<noteq> []" "queryStringParameters ev0 ''wallet'' = Some w"
    and "\<not> fails (Put WebsocketNonceTable
                [(''wallet'', S w), (''nonce'', S n), (''ttl'', N (of_int (now div 1000 + 600)))])"
  shows "snd (generateNonce_handler fails n now ev0 s) =
           s(WebsocketNonceTable :=
               filter (\<lambda>j. map_of j ''wallet'' \<noteq> Some (S w)) (s WebsocketNonceTable) @
               [[(''wallet'', S w), (''nonce'', S n), (''ttl'', N (of_int (now div 1000 + 600)))]])"
  using assms by (simp add: generateNonce_handler_def PutCommand_def primaryKey_def Let_def)

lemma stored_nonce_issued:
  "stored_nonce (s(WebsocketNonceTable :=
       filter (\<lambda>j. map_of j ''wallet'' \<noteq> Some (S w)) (s WebsocketNonceTable) @ [[(''wallet'', S w), (''nonce'', S n), x]])) w
     = Some [(''wallet'', S w), (''nonce'', S n), x]"
proof -
  have "find (\<lambda>i. map_of i ''wallet'' = Some (S w))
          (filter (\<lambda>j. map_of j ''wallet'' \<noteq> Some (S w)) rows @ [r]) =
        find (\<lambda>i. map_of i ''wallet'' = Some (S w)) [r]" for rows r
    by (induction rows) auto
  then show ?thesis by (simp add: stored_nonce_def)
qed

lemma connect_rejects_without_nonce:
  assumes "auth_param ev2 ''wallet'' = Some w" "w \<noteq> []"
    and "auth_param ev2 ''signature'' = Some sg2" "sg2 \<noteq> []"
    and "auth_param ev2 ''message'' = Some m2" "m2 \<noteq> []"
    and "stored_nonce s2 w = None"
  shows "statusCode (fst (connect_handler verify2 fails2 ev2 s2)) \<noteq> 200 \<and>
         (\<not> fails2 (Get WebsocketNonceTable [(''wallet'', S w)]) \<longrightarrow>
            connect_handler verify2 fails2 ev2 s2 =
              (Response 401 (ErrorBody ''Invalid or expired nonce''), s2,
               [Db (Get WebsocketNonceTable [(''wallet'', S w)])]))"
  unfolding connect_handler_present [OF assms(1-6)] authenticate_cases
  using assms(7) by (simp add: Let_def nonce_mismatch_def)

text \<open>
  C1. A nonce is issued for a wallet and a connection attempt presents it with a
  signature that verifies, the store failing no request: the attempt is answered 200,
  the nonce table has no row for the wallet afterwards, and every further attempt for
  that wallet (the same nonce or another, any signature, any verifier) is not answered
  200; when its lookup does not fail it is answered 401 "Invalid or expired nonce" and
  leaves the store as it is.
\<close>

theorem nonce_single_use:
  assumes "w \<noteq> []" "n \<noteq> []" "sg \<noteq> []"
    and "queryStringParameters ev0 ''wallet'' = Some w"
    and "\<not> fails (Put WebsocketNonceTable
                [(''wallet'', S w), (''nonce'', S n), (''ttl'', N (of_int (now div 1000 + 600)))])"
    and "auth_param ev ''wallet'' = Some w"
    and "auth_param ev ''signature'' = Some sg"
    and "auth_param ev ''message'' = Some n"
    and "verify n sg w = Some True"
    and "\<not> fails (Get WebsocketNonceTable [(''wallet'', S w)])"
    and "\<not> fails (Delete WebsocketNonceTable [(''wallet'', S w)])"
  shows "let s1 = snd (generateNonce_handler fails n now ev0 s);
             r1 = connect_handler verify fails ev s1;
             s2 = fst (snd r1)
         in fst r1 = Response 200 (MessageBody ''Connected'') \<and>
            stored_nonce s2 w = None \<and>
            (\<forall>verify2 fails2 ev2 sg2 m2.
               auth_param ev2 ''wallet'' = Some w \<and>
               auth_param ev2 ''signature'' = Some sg2 \<and> sg2 \<noteq> [] \<and>
               auth_param ev2 ''message'' = Some m2 \<and> m2 \<noteq> [] \<longrightarrow>
               statusCode (fst (connect_handler verify2 fails2 ev2 s2)) \<noteq> 200 \<and>
               (\<not> fails2 (Get WebsocketNonceTable [(''wallet'', S w)]) \<longrightarrow>
                  connect_handler verify2 fails2 ev2 s2 =
                    (Response 401 (ErrorBody ''Invalid or expired nonce''), s2,
                     [Db (Get WebsocketNonceTable [(''wallet'', S w)])])))"
proof -
  define s1 where "s1 = snd (generateNonce_handler fails n now ev0 s)"
  define r1 where "r1 = connect_handler verify fails ev s1"
  define s2 where "s2 = fst (snd r1)"
  have s1: "s1 = s(WebsocketNonceTable :=
               filter (\<lambda>j. map_of j ''wallet'' \<noteq> Some (S w)) (s WebsocketNonceTable) @
               [[(''wallet'', S w), (''nonce'', S n), (''ttl'', N (of_int (now div 1000 + 600)))]])"
    unfolding s1_def using assms(1,4,5) by (rule generateNonce_store)
  have match: "\<not> nonce_mismatch (stored_nonce s1 w) n"
    unfolding s1 stored_nonce_issued by (simp add: nonce_mismatch_def)
  have r1: "r1 = authenticate verify fails w sg n s1"
    unfolding r1_def using assms(6,1,7,3,8,2) by (rule connect_handler_present)
  have ok: "fst r1 = Response 200 (MessageBody ''Connected'')"
    unfolding r1 authenticate_cases using match assms(9,10,11) by (simp add: Let_def)
  have s2: "s2 = s1(WebsocketNonceTable :=
                filter (\<lambda>j. map_of j ''wallet'' \<noteq> Some (S w)) (s1 WebsocketNonceTable))"
    unfolding s2_def r1 authenticate_cases using match assms(9,10,11) by (simp add: Let_def)
  have gone: "stored_nonce s2 w = None"
    unfolding s2 by (rule stored_nonce_deleted)
  have again: "statusCode (fst (connect_handler verify2 fails2 ev2 s2)) \<noteq> 200 \<and>
               (\<not> fails2 (Get WebsocketNonceTable [(''wallet'', S w)]) \<longrightarrow>
                  connect_handler verify2 fails2 ev2 s2 =
                    (Response 401 (ErrorBody ''Invalid or expired nonce''), s2,
                     [Db (Get WebsocketNonceTable [(''wallet'', S w)])]))"
    if "auth_param ev2 ''wallet'' = Some w"
       "auth_param ev2 ''signature'' = Some sg2" "sg2 \<noteq> []"
       "auth_param ev2 ''message'' = Some m2" "m2 \<noteq> []"
    for verify2 fails2 ev2 sg2 m2
    using that(1) assms(1) that(2,3,4,5) gone by (rule connect_rejects_without_nonce)
  have "fst r1 = Response 200 (MessageBody ''Connected'') \<and> stored_nonce s2 w = None \<and>
        (\<forall>verify2 fails2 ev2 sg2 m2.
           auth_param ev2 ''wallet'' = Some w \<and>
           auth_param ev2 ''signature'' = Some sg2 \<and> sg2 \<noteq> [] \<and>
           auth_param ev2 ''message'' = Some m2 \<and> m2 \<noteq> [] \<longrightarrow>
           statusCode (fst (connect_handler verify2 fails2 ev2 s2)) \<noteq> 200 \<and>
           (\<not> fails2 (Get WebsocketNonceTable [(''wallet'', S w)]) \<longrightarrow>
              connect_handler verify2 fails2 ev2 s2 =
                (Response 401 (ErrorBody ''Invalid or expired nonce''), s2,
                 [Db (Get WebsocketNonceTable [(''wallet'', S w)])])))"
    using ok gone again by blast
  then show ?thesis
    unfolding Let_def s2_def r1_def s1_def .
qed

text \<open>Issue \<open>n1\<close> for wallet \<open>W\<close>, connect, and connect again with the same parameters.\<close>

theorem nonce_single_use_witness:
  "(let s1 = snd (generateNonce_handler (\<lambda>op. False) ''n1'' 5000 (nonce_request ''W'') (\<lambda>T. []));
        r1 = connect_handler (\<lambda>m sg w. Some (sg = ''sig'')) (\<lambda>op. False)
               (connect_event ''W'' ''sig'' ''n1'') s1;
        s2 = fst (snd r1)
    in fst r1 = Response 200 (MessageBody ''Connected'') \<and>
       stored_nonce s2 ''W'' = None \<and>
       connect_handler (\<lambda>m sg w. Some (sg = ''sig'')) (\<lambda>op. False)
               (connect_event ''W'' ''sig'' ''n1'') s2 =
         (Response 401 (ErrorBody ''Invalid or expired nonce''), s2,
          [Db (Get WebsocketNonceTable [(''wallet'', S ''W'')])]))"
  using nonce_single_use
          [of "''W''" "''n1''" "''sig''" "nonce_request ''W''" "\<lambda>op. False" 5000
              "connect_event ''W'' ''sig'' ''n1''" "\<lambda>m sg w. Some (sg = ''sig'')" "\<lambda>T. []"]
  by (simp add: connect_event_params nonce_request_def Let_def)

text \<open>
  C4, as the handler has it. The delete of the nonce is among the calls only when the
  stored nonce equals the presented one and the signature has verified. When that
  delete fails, the catch-all of the handler answers 500 "Internal server error": the
  connection is not admitted, and the store is as before.
\<close>

theorem nonce_delete_failure_is_error:
  assumes "auth_param ev ''wallet'' = Some w" "w \<noteq> []"
    and "auth_param ev ''signature'' = Some sg" "sg \<noteq> []"
    and "auth_param ev ''message'' = Some m" "m \<noteq> []"
  shows "(\<forall>T k. Db (Delete T k) \<in> set (snd (snd (connect_handler verify fails ev s))) \<longrightarrow>
            verify m sg w = Some True \<and> \<not> nonce_mismatch (stored_nonce s w) m) \<and>
         (\<not> fails (Get WebsocketNonceTable [(''wallet'', S w)]) \<and>
          \<not> nonce_mismatch (stored_nonce s w) m \<and> verify m sg w = Some True \<and>
          fails (Delete WebsocketNonceTable [(''wallet'', S w)]) \<longrightarrow>
            connect_handler verify fails ev s =
              (Response 500 (ErrorBody ''Internal server error''), s,
               [Db (Get WebsocketNonceTable [(''wallet'', S w)]), Verify m sg w,
                Db (Delete WebsocketNonceTable [(''wallet'', S w)])]))"
  unfolding connect_handler_present [OF assms] authenticate_cases
  by (cases "verify m sg w") (auto simp add: Let_def)

text \<open>A store that fails exactly the delete of the nonce of wallet \<open>W\<close>.\<close>

theorem nonce_delete_failure_is_error_witness:
  "auth_param (connect_event ''W'' ''sig'' ''n1'') ''message'' = Some ''n1'' \<and>
   connect_handler (\<lambda>m sg w. Some True)
       (\<lambda>op. op = Delete WebsocketNonceTable [(''wallet'', S ''W'')])
       (connect_event ''W'' ''sig'' ''n1'') (nonce_store ''W'' ''n1'') =
     (Response 500 (ErrorBody ''Internal server error''), nonce_store ''W'' ''n1'',
      [Db (Get WebsocketNonceTable [(''wallet'', S ''W'')]), Verify ''n1'' ''sig'' ''W'',
       Db (Delete WebsocketNonceTable [(''wallet'', S ''W'')])])"
  using nonce_delete_failure_is_error
          [of "connect_event ''W'' ''sig'' ''n1''" "''W''" "''sig''" "''n1''"
              "\<lambda>m sg w. Some True"
              "\<lambda>op. op = Delete WebsocketNonceTable [(''wallet'', S ''W'')]"
              "nonce_store ''W'' ''n1''"]
  by (simp add: connect_event_params stored_nonce_nonce_store nonce_mismatch_def)

text \<open>
  C4 as the specification states it (a failed delete still admits the connection) is
  false at that input: the status is 500.
\<close>

theorem nonce_delete_failure_admits_counterexample:
  "statusCode (fst (connect_handler (\<lambda>m sg w. Some True)
       (\<lambda>op. op = Delete WebsocketNonceTable [(''wallet'', S ''W'')])
       (connect_event ''W'' ''sig'' ''n1'') (nonce_store ''W'' ''n1''))) = 500"
  by (simp add: connect_handler_def authenticate_def auth_param_def connect_event_def
        nonce_store_def js_or_def truthy_def GetCommand_def DeleteCommand_def primaryKey_def
        nonce_mismatch_def Let_def)

section \<open>The subscription registry\<close>

lemma subscribe_store:
  assumes "parse_body (body ev) = Inr j" "SubscribePriceSchema_parse j = Inr t"
    and "\<not> fails (Put PriceConnectionsTable (price_row (connectionId ev) t (now div 1000 + 3600)))"
  shows "fst (snd (subscribePrice_handler fails post now ev s)) =
           s(PriceConnectionsTable :=
               filter (\<lambda>i. map_of i ''connectionId'' \<noteq> Some (S (connectionId ev)))
                 (s PriceConnectionsTable) @
               [price_row (connectionId ev) t (now div 1000 + 3600)])"
  using assms
  by (simp add: subscribePrice_handler_def PutCommand_def primaryKey_def Let_def
        subscribe_error_def price_row_def split: option.splits)

lemma filter_conn_put:
  "filter (\<lambda>i. map_of i ''connectionId'' = Some (S c))
     (filter (\<lambda>i. map_of i ''connectionId'' \<noteq> Some (S c)) rows @ [price_row c t x]) =
   [price_row c t x]"
  by (induction rows) (auto simp: price_row_def)

lemma filter_pair_put:
  "filter (\<lambda>i. map_of i ''connectionId'' = Some (S c) \<and> map_of i ''token'' = Some (S t))
     (filter (\<lambda>i. map_of i ''connectionId'' \<noteq> Some (S c)) rows @ [price_row c t' x]) =
   (if t' = t then [price_row c t x] else [])"
  by (induction rows) (auto simp: price_row_def)




lemma subscribe_event_parse:
  "parse_body (body (subscribe_event c t)) =
     Inr (JObj [(''action'', JStr ''subscribePrice''), (''token'', JStr t)])"
  "t \<noteq> [] \<Longrightarrow>
   SubscribePriceSchema_parse (JObj [(''action'', JStr ''subscribePrice''), (''token'', JStr t)]) = Inr t"
  "connectionId (subscribe_event c t) = c"
  by (cases t; simp add: subscribe_event_def parse_body_def SubscribePriceSchema_parse_def)+


lemma get_after_put:
  "GetCommand (\<lambda>op. False) PriceConnectionsTable [(''connectionId'', S c)]
     (s(PriceConnectionsTable :=
          filter (\<lambda>i. map_of i ''connectionId'' \<noteq> Some (S c)) rows @ [price_row c t x])) =
   Inr (Some (price_row c t x))"
proof -
  have "find (\<lambda>i. map_of i ''connectionId'' = Some (S c))
          (filter (\<lambda>i. map_of i ''connectionId'' \<noteq> Some (S c)) rows @ [r]) =
        find (\<lambda>i. map_of i ''connectionId'' = Some (S c)) [r]" for r
    by (induction rows) auto
  then show ?thesis
    by (simp add: GetCommand_def primaryKey_def price_row_def)
qed

text \<open>
  C3, as the table has it. The price-connections table is keyed by \<open>connectionId\<close> alone,
  so a connection holds at most one row in it: after a connection subscribes to a
  token and then to a different token, both puts accepted, its only row is the one for
  the second token, no row is left for the first, and a lookup by its \<open>connectionId\<close>
  (the primary key) returns the row of the second.
\<close>

theorem subscribe_second_topic_replaces_first:
  assumes "parse_body (body ev1) = Inr j1" "SubscribePriceSchema_parse j1 = Inr t1"
    and "parse_body (body ev2) = Inr j2" "SubscribePriceSchema_parse j2 = Inr t2"
    and "connectionId ev1 = c" "connectionId ev2 = c" "t1 \<noteq> t2"
    and "\<not> fails (Put PriceConnectionsTable (price_row c t1 (now1 div 1000 + 3600)))"
    and "\<not> fails (Put PriceConnectionsTable (price_row c t2 (now2 div 1000 + 3600)))"
  shows "let s1 = fst (snd (subscribePrice_handler fails post1 now1 ev1 s));
             s2 = fst (snd (subscribePrice_handler fails post2 now2 ev2 s1))
         in filter (\<lambda>i. map_of i ''connectionId'' = Some (S c)) (s2 PriceConnectionsTable) =
              [price_row c t2 (now2 div 1000 + 3600)] \<and>
            filter (\<lambda>i. map_of i ''connectionId'' = Some (S c) \<and>
                         map_of i ''token'' = Some (S t1)) (s2 PriceConnectionsTable) = [] \<and>
            GetCommand (\<lambda>op. False) PriceConnectionsTable [(''connectionId'', S c)] s2 =
              Inr (Some (price_row c t2 (now2 div 1000 + 3600)))"
proof -
  have s1: "fst (snd (subscribePrice_handler fails post1 now1 ev1 s)) =
           s(PriceConnectionsTable :=
               filter (\<lambda>i. map_of i ''connectionId'' \<noteq> Some (S c)) (s PriceConnectionsTable) @
               [price_row c t1 (now1 div 1000 + 3600)])" (is "?s1 = _")
    using subscribe_store [OF assms(1,2), of fails now1 post1 s] assms(5,8) by simp
  have s2: "fst (snd (subscribePrice_handler fails post2 now2 ev2 ?s1)) =
           ?s1(PriceConnectionsTable :=
               filter (\<lambda>i. map_of i ''connectionId'' \<noteq> Some (S c)) (?s1 PriceConnectionsTable) @
               [price_row c t2 (now2 div 1000 + 3600)])"
    using subscribe_store [OF assms(3,4), of fails now2 post2 ?s1] assms(6,9) by simp
  show ?thesis
    unfolding Let_def s2 get_after_put
    using assms(7)
    by (simp add: filter_conn_put filter_pair_put del: filter_append filter.simps)
qed

text \<open>Connection \<open>C1\<close> subscribes to \<open>AAA\<close> and then to \<open>BBB\<close>.\<close>

theorem subscribe_second_topic_replaces_first_witness:
  "(let s1 = fst (snd (subscribePrice_handler (\<lambda>op. False) (\<lambda>c d. None) 1000000
                         (subscribe_event ''C1'' ''AAA'') (\<lambda>T. [])));
        s2 = fst (snd (subscribePrice_handler (\<lambda>op. False) (\<lambda>c d. None) 1900500
                         (subscribe_event ''C1'' ''BBB'') s1))
    in ''AAA'' \<noteq> ''BBB'' \<and>
       filter (\<lambda>i. map_of i ''connectionId'' = Some (S ''C1'')) (s2 PriceConnectionsTable) =
         [[(''connectionId'', S ''C1''), (''token'', S ''BBB''), (''ttl'', N 5500)]] \<and>
       GetCommand (\<lambda>op. False) PriceConnectionsTable [(''connectionId'', S ''C1'')] s2 =
         Inr (Some [(''connectionId'', S ''C1''), (''token'', S ''BBB''), (''ttl'', N 5500)]))"
  using subscribe_second_topic_replaces_first
          [of "subscribe_event ''C1'' ''AAA''" _ "''AAA''" "subscribe_event ''C1'' ''BBB''" _
              "''BBB''" "''C1''" "\<lambda>op. False" 1000000 1900500 "\<lambda>c d. None" "\<lambda>T. []" "\<lambda>c d. None"]
  by (simp add: subscribe_event_parse price_row_def Let_def)

text \<open>
  C3 as the specification states it (one row for each of the two pairs, both
  subscriptions active at once) is false at that input: the table holds the row for
  \<open>BBB\<close> and nothing else.
\<close>

theorem subscribe_two_topics_counterexample:
  "fst (snd (subscribePrice_handler (\<lambda>op. False) (\<lambda>c d. None) 1900500
               (subscribe_event ''C1'' ''BBB'')
               (fst (snd (subscribePrice_handler (\<lambda>op. False) (\<lambda>c d. None) 1000000
                            (subscribe_event ''C1'' ''AAA'') (\<lambda>T. [])))))) PriceConnectionsTable =
     [[(''connectionId'', S ''C1''), (''token'', S ''BBB''), (''ttl'', N 5500)]]"
  by (simp add: subscribe_event_parse price_row_def Let_def subscribe_store)

section \<open>The queue worker\<close>

text \<open>
  The query of the registry names the reserved word \<open>token\<close> without an alias: the service
  refuses it for every token and every store, so \<open>resolveSubscribers\<close> throws.
\<close>

lemma resolveSubscribers_refused:
  "resolveSubscribers fails token s =
     Inl (if fails (Query PriceConnectionsTable ''byToken'') then ServiceError
          else ValidationException)"
  by (simp add: resolveSubscribers_def QueryCommand_def reserved_words_def)

text \<open>Whatever the records and the outcomes of the sends, the worker leaves the store as it is.\<close>

lemma broadcast_handler_store:
  "fst (snd (broadcast_handler fails post Records s)) = s"
  by (induction Records) (auto split: prod.splits option.splits)

text \<open>
  C2. Connections \<open>C1\<close> and \<open>C2\<close> hold rows for \<open>TOK\<close>, the record names both as its
  recipients, and \<open>C2\<close> is gone: after the worker has run, the price-connections table
  still holds the row of \<open>C2\<close>.
\<close>

theorem worker_keeps_gone_connection:
  "fst (snd (broadcast_handler (\<lambda>op. False) gone_second [queue_record] two_subscribers))
     PriceConnectionsTable =
     [[(''connectionId'', S ''C1''), (''token'', S ''TOK''), (''ttl'', N 5000)],
      [(''connectionId'', S ''C2''), (''token'', S ''TOK''), (''ttl'', N 5000)]]"
  by (simp add: process_record_def queue_record_def price_update_def get_field_def
        classify_connectionIds_def two_subscribers_def send_to_connection_def
        gone_second_def error_statusCode_def Let_def)

section \<open>The expiry sweeper\<close>

text \<open>
  The filter expression of the scan names the reserved word \<open>ttl\<close> without an alias: the
  service refuses every scan, for every table, time and store.
\<close>

lemma sweep_pages_refused:
  "sweep_pages fails limit T name now page unscanned s deletedCount =
     (s, Inl (if fails (Scan T page) then ServiceError else ValidationException))"
  by (subst sweep_pages.simps) (simp add: ScanCommand_def reserved_words_def)

text \<open>
  So a pass deletes nothing and reports no count: each table is left with the error of
  its first scan, whatever the rows, the page size and the names.
\<close>

lemma ttlSweeper_handler_refused:
  "ttlSweeper_handler fails limit rname nowMs s =
     (s, [ErrorSweeping ''Price connections'', ErrorSweeping ''Balance connections'',
          ErrorSweeping ''WebSocket nonces''])"
  by (simp add: ttlSweeper_handler_def tablesToSweep_def sweep_pages_refused
        del: sweep_pages.simps)

text \<open>
  C7. At time 1000 s, with two price rows and a nonce whose \<open>ttl\<close> is below 1000 and a
  store that fails no request: after the pass the expired rows are all still there, and
  the report is an error for each table, with no count of deletions.
\<close>

theorem sweeper_deletes_nothing:
  "fst (ttlSweeper_handler (\<lambda>op. False) 0 prod_names 1000000 sweep_store)
     PriceConnectionsTable =
     [[(''connectionId'', S ''C1''), (''token'', S ''TOK''), (''ttl'', N 100)],
      [(''connectionId'', S ''C2''), (''token'', S ''TOK''), (''ttl'', N 100)],
      [(''connectionId'', S ''C3''), (''token'', S ''TOK''), (''ttl'', N 5000)]] \<and>
   fst (ttlSweeper_handler (\<lambda>op. False) 0 prod_names 1000000 sweep_store)
     WebsocketNonceTable =
     [[(''wallet'', S ''W''), (''nonce'', S ''n1''), (''ttl'', N 50)]] \<and>
   snd (ttlSweeper_handler (\<lambda>op. False) 0 prod_names 1000000 sweep_store) =
     [ErrorSweeping ''Price connections'', ErrorSweeping ''Balance connections'',
      ErrorSweeping ''WebSocket nonces'']"
  by (simp add: ttlSweeper_handler_def tablesToSweep_def sweep_store_def ScanCommand_def
        reserved_words_def)

section \<open>The publisher and the fallback\<close>

text \<open>The choice of engine, when the edge is configured and its call fails.\<close>

lemma dispatch_fallback:
  assumes "env ''USE_EDGE_BROADCAST'' = Some ''true''"
    and "truthy (env ''EDGE_BROADCAST_URL'')" "truthy (env ''EDGE_BROADCAST_SECRET'')"
    and "edge = FetchThrows \<or> (\<exists>st txt. edge = FetchResponse False st txt)"
    and "\<not> sqs_fails 0"
  shows "dispatch env edge sqs_fails msg queue =
           Inr (queue @ [JObj [(''connectionIds'', JArr []), (''message'', msg)]])"
  using assms
  by (auto simp: dispatch_def broadcastViaSQS_def split: option.splits)

text \<open>
  C8. An authorised webhook with a valid payload, stored in the time series, with the
  edge engine configured: when the call to the edge throws or answers with a response
  that is not OK, and the queue accepts the send, the queue receives exactly one more
  entry, that carries the broadcast message of this webhook, and the publisher is
  answered 200 "accepted".
\<close>

theorem edge_failure_falls_back_to_queue:
  assumes "js_or (headers ev ''authorization'') (headers ev ''Authorization'') =
             Some (''Bearer '' @ apiKey)"
    and "parse_body (body ev) = Inr j" "HeliusPriceWebhookSchema_parse j = Inr p"
    and "toDateStr (timestamp p) = Some dateStr"
    and "\<And>i. \<not> fails (Put PriceTimeSeriesTable i)"
    and "env ''USE_EDGE_BROADCAST'' = Some ''true''"
    and "truthy (env ''EDGE_BROADCAST_URL'')" "truthy (env ''EDGE_BROADCAST_SECRET'')"
    and "edge = FetchThrows \<or> (\<exists>st txt. edge = FetchResponse False st txt)"
    and "\<not> sqs_fails 0"
  shows "fst (heliusPrice_handler apiKey env toDateStr fails edge sqs_fails now ev s queue) =
           Response 200 (StatusBody ''accepted'') \<and>
         snd (snd (heliusPrice_handler apiKey env toDateStr fails edge sqs_fails now ev s queue)) =
           queue @ [JObj [(''connectionIds'', JArr []),
                          (''message'',
                           broadcastMessage (price_token ev) (calculatePrice (accounts p)) p)]]"
  using assms dispatch_fallback [of env edge sqs_fails]
  by (simp add: heliusPrice_handler_def Let_def PutCommand_def)

lemma price_webhook_parse:
  "parse_body (body price_webhook) =
     Inr (JObj [(''type'', JStr ''SWAP''),
                         (''accounts'',
                          JArr [JObj [(''address'', JStr ''vault_sol''),
                                      (''nativeBalanceChange'', JNum 2000000000)],
                                JObj [(''address'', JStr ''user''),
                                      (''nativeBalanceChange'', JNum (- 4))]]),
                         (''txSignature'', JStr ''tx-1''),
                         (''slot'', JNum 7),
                         (''timestamp'', JNum 1000)])"
  "HeliusPriceWebhookSchema_parse (JObj [(''type'', JStr ''SWAP''),
                         (''accounts'',
                          JArr [JObj [(''address'', JStr ''vault_sol''),
                                      (''nativeBalanceChange'', JNum 2000000000)],
                                JObj [(''address'', JStr ''user''),
                                      (''nativeBalanceChange'', JNum (- 4))]]),
                         (''txSignature'', JStr ''tx-1''),
                         (''slot'', JNum 7),
                         (''timestamp'', JNum 1000)]) =
     Inr \<lparr>ptype = ''SWAP'', accounts = [(''vault_sol'', 2000000000), (''user'', - 4)],
          txSignature = ''tx-1'', slot = 7, timestamp = 1000\<rparr>"
  by (simp_all add: price_webhook_def parse_body_def HeliusPriceWebhookSchema_parse_def
        get_field_def parse_account_def)

text \<open>The edge answers 503, or the call throws: either way the message is on the queue.\<close>

theorem edge_failure_falls_back_to_queue_witness:
  "edge_env ''USE_EDGE_BROADCAST'' = Some ''true'' \<and>
   fst (heliusPrice_handler ''key-1'' edge_env (\<lambda>ts. Some ''19700101'') (\<lambda>op. False)
          (FetchResponse False 503 (Some ''unavailable'')) (\<lambda>n. False) 5000 price_webhook
          (\<lambda>T. []) []) = Response 200 (StatusBody ''accepted'') \<and>
   snd (snd (heliusPrice_handler ''key-1'' edge_env (\<lambda>ts. Some ''19700101'') (\<lambda>op. False)
          (FetchResponse False 503 (Some ''unavailable'')) (\<lambda>n. False) 5000 price_webhook
          (\<lambda>T. []) [])) =
     [JObj [(''connectionIds'', JArr []),
            (''message'',
             JObj [(''type'', JStr ''PRICE_UPDATE''), (''token'', JStr ''TOK''),
                   (''price'', JNum (1 / 2)), (''timestamp'', JNum 1000), (''slot'', JNum 7),
                   (''txSignature'', JStr ''tx-1'')])]] \<and>
   snd (snd (heliusPrice_handler ''key-1'' edge_env (\<lambda>ts. Some ''19700101'') (\<lambda>op. False)
          FetchThrows (\<lambda>n. False) 5000 price_webhook (\<lambda>T. []) [])) =
     [JObj [(''connectionIds'', JArr []),
            (''message'',
             JObj [(''type'', JStr ''PRICE_UPDATE''), (''token'', JStr ''TOK''),
                   (''price'', JNum (1 / 2)), (''timestamp'', JNum 1000), (''slot'', JNum 7),
                   (''txSignature'', JStr ''tx-1'')])]]"
proof -
  let ?j = "JObj [(''type'', JStr ''SWAP''),
                         (''accounts'',
                          JArr [JObj [(''address'', JStr ''vault_sol''),
                                      (''nativeBalanceChange'', JNum 2000000000)],
                                JObj [(''address'', JStr ''user''),
                                      (''nativeBalanceChange'', JNum (- 4))]]),
                         (''txSignature'', JStr ''tx-1''),
                         (''slot'', JNum 7),
                         (''timestamp'', JNum 1000)]"
  let ?p = "\<lparr>ptype = ''SWAP'', accounts = [(''vault_sol'', 2000000000), (''user'', - 4)],
          txSignature = ''tx-1'', slot = 7, timestamp = 1000\<rparr>"
  have auth: "js_or (headers price_webhook ''authorization'') (headers price_webhook ''Authorization'') =
        Some (''Bearer '' @ ''key-1'')"
    by (simp add: price_webhook_def js_or_def truthy_def)
  have env: "edge_env ''USE_EDGE_BROADCAST'' = Some ''true''"
       "truthy (edge_env ''EDGE_BROADCAST_URL'')" "truthy (edge_env ''EDGE_BROADCAST_SECRET'')"
    by (simp_all add: edge_env_def truthy_def)
  have msg: "broadcastMessage (price_token price_webhook)
               (calculatePrice [(''vault_sol'', 2000000000), (''user'', - 4)]) ?p =
             JObj [(''type'', JStr ''PRICE_UPDATE''), (''token'', JStr ''TOK''),
                   (''price'', JNum (1 / 2)), (''timestamp'', JNum 1000), (''slot'', JNum 7),
                   (''txSignature'', JStr ''tx-1'')]"
    by (simp add: broadcastMessage_def price_token_def calculatePrice_def price_webhook_def)
  show ?thesis
    using edge_failure_falls_back_to_queue
            [of price_webhook "''key-1''" ?j ?p "\<lambda>ts. Some ''19700101''" "''19700101''"
                "\<lambda>op. False" edge_env "FetchResponse False 503 (Some ''unavailable'')"
                "\<lambda>n. False" 5000 "\<lambda>T. []" "[]"]
          edge_failure_falls_back_to_queue
            [of price_webhook "''key-1''" ?j ?p "\<lambda>ts. Some ''19700101''" "''19700101''"
                "\<lambda>op. False" edge_env "FetchThrows"
                "\<lambda>n. False" 5000 "\<lambda>T. []" "[]"]
    by (simp add: auth env msg price_webhook_parse)
qed

section \<open>The edge actor\<close>

text \<open>The loop of sends: every entry is sent to, and the ids collected are those whose send threw.\<close>

lemma send_each_eq:
  "send_each send_throws fr conns =
     (map fst (filter (\<lambda>(cid, info). send_throws (socket info)) conns),
      map (\<lambda>(cid, info). SocketSend (socket info) fr) conns)"
  by (induction conns) (auto split: prod.splits)

lemma fold_Map_delete:
  "fold Map_delete ks m = filter (\<lambda>(k, v). k \<notin> set ks) m"
proof (induction ks arbitrary: m)
  case Nil
  then show ?case by simp
next
  case (Cons k ks)
  have "filter (\<lambda>(k', v). k' \<notin> set ks) (filter (\<lambda>(k', v'). k' \<noteq> k) m) =
        filter (\<lambda>(k', v). k' \<notin> set (k # ks)) m"
    by (induction m) auto
  with Cons show ?case by (simp add: Map_delete_def)
qed

text \<open>Over distinct keys, dropping the keys of the rows that satisfy \<open>P\<close> drops exactly those rows.\<close>

lemma filter_by_key_distinct:
  assumes "distinct (map f rows)"
  shows "filter (\<lambda>j. f j \<notin> set (map f (filter P rows))) rows = filter (\<lambda>j. \<not> P j) rows"
proof (rule filter_cong [OF refl])
  fix j assume j: "j \<in> set rows"
  have inj: "inj_on f (set rows)"
    using assms by (simp add: distinct_map)
  show "(f j \<notin> set (map f (filter P rows))) = (\<not> P j)"
    using j inj by (auto dest: inj_onD)
qed

text \<open>
  C9. A broadcast in a room sends one frame to the socket of every entry of the
  connection map, in order; afterwards the map holds exactly the entries whose send
  did not throw, unchanged and in order. With an empty map no socket is touched and
  the room is as before: the broadcast request is answered 200 with 0 connections.
\<close>

theorem broadcast_prunes_failed_sockets:
  assumes "distinct (map fst (connections room))"
  shows "broadcast send_throws now message room =
           (room\<lparr>connections :=
                   filter (\<lambda>(cid, info). \<not> send_throws (socket info)) (connections room)\<rparr>,
            map (\<lambda>(cid, info). SocketSend (socket info) (BroadcastFrame message now))
              (connections room)) \<and>
         (connections room = [] \<longrightarrow>
            broadcast send_throws now message room = (room, []) \<and>
            BroadcastRoom_fetch send_throws now uuid server rnd
              \<lparr>http_method = ''POST'', pathname = ''/broadcast'', req_headers = hdrs,
               req_body = Json message\<rparr> room =
              (Inr (EdgeResponse 200 (SuccessBody 0)), room\<lparr>lastActivity := now\<rparr>, []))"
proof -
  have "filter (\<lambda>(k, v). k \<notin> set (map fst (filter (\<lambda>(cid, info). send_throws (socket info))
                                              (connections room)))) (connections room) =
        filter (\<lambda>(cid, info). \<not> send_throws (socket info)) (connections room)"
    using filter_by_key_distinct [OF assms, of "\<lambda>(cid, info). send_throws (socket info)"]
    by (simp add: case_prod_unfold)
  then have main: "broadcast send_throws now message room =
           (room\<lparr>connections :=
                   filter (\<lambda>(cid, info). \<not> send_throws (socket info)) (connections room)\<rparr>,
            map (\<lambda>(cid, info). SocketSend (socket info) (BroadcastFrame message now))
              (connections room))"
    by (simp add: broadcast_def send_each_eq fold_Map_delete)
  have empty: "broadcast send_throws now message r = (r, [])" if "connections r = []" for r
    using that by (simp add: broadcast_def)
  show ?thesis
    using main empty [of room] empty [of "room\<lparr>lastActivity := now\<rparr>"]
    by (simp add: BroadcastRoom_fetch_def)
qed

text \<open>Three sockets of which the second throws on send; and an empty room.\<close>

theorem broadcast_prunes_failed_sockets_witness:
  "distinct (map fst (connections three_sockets)) \<and>
   broadcast (\<lambda>sock. sock = 2) 9000 price_update three_sockets =
     (\<lparr>connections = [(''a'', socket_info 1), (''c'', socket_info 3)], lastActivity = 0\<rparr>,
      [SocketSend 1 (BroadcastFrame price_update 9000),
       SocketSend 2 (BroadcastFrame price_update 9000),
       SocketSend 3 (BroadcastFrame price_update 9000)]) \<and>
   broadcast (\<lambda>sock. True) 9000 price_update \<lparr>connections = [], lastActivity = 0\<rparr> =
     (\<lparr>connections = [], lastActivity = 0\<rparr>, [])"
  using broadcast_prunes_failed_sockets [of three_sockets "\<lambda>sock. sock = 2" 9000 price_update]
        broadcast_prunes_failed_sockets
          [of "\<lparr>connections = [], lastActivity = 0\<rparr>" "\<lambda>sock. True" 9000 price_update]
  by (simp add: three_sockets_def socket_info_def)

section \<open>The edge worker\<close>

text \<open>A path of the socket route is not the path of the room's broadcast.\<close>

lemma ws_is_not_broadcast:
  "startsWith p ''/ws/'' \<Longrightarrow> p \<noteq> ''/broadcast''"
  by (auto simp: startsWith_def)

text \<open>
  C10. A POST to a path under \<open>/broadcast/\<close> whose \<open>Authorization\<close> header is not exactly
  \<open>Bearer\<close>, a space and the webhook secret is answered 401 "Unauthorized" when the path
  carries a token (400 "Token required" when it carries none); no request is forwarded
  to a room, no socket is touched and every room is as before. Whatever the request, a
  POST to the broadcast path of a room is forwarded only for a POST under \<open>/broadcast/\<close>
  that carries the exact secret.
\<close>

theorem edge_publish_requires_secret:
  "(http_method req = ''POST'' \<and> startsWith (pathname req) ''/broadcast/'' \<and>
    req_headers req ''Authorization'' \<noteq> Some (''Bearer '' @ secret) \<longrightarrow>
      worker_fetch secret origins send_throws now uuid server rnd req rooms =
        (if truthy (path_token (pathname req))
         then (Inr (EdgeResponse 401 (TextBody ''Unauthorized'')), rooms, [], [])
         else (Inr (EdgeResponse 400 (TextBody ''Token required'')), rooms, [], []))) \<and>
   (\<forall>name fwd.
      (name, fwd) \<in> set (fst (snd (snd (worker_fetch secret origins send_throws now uuid server
                                          rnd req rooms)))) \<and>
      pathname fwd = ''/broadcast'' \<and> http_method fwd = ''POST'' \<longrightarrow>
        http_method req = ''POST'' \<and> startsWith (pathname req) ''/broadcast/'' \<and>
        req_headers req ''Authorization'' = Some (''Bearer '' @ secret))"
proof (intro conjI allI impI)
  assume "http_method req = ''POST'' \<and> startsWith (pathname req) ''/broadcast/'' \<and>
          req_headers req ''Authorization'' \<noteq> Some (''Bearer '' @ secret)"
  then show "worker_fetch secret origins send_throws now uuid server rnd req rooms =
        (if truthy (path_token (pathname req))
         then (Inr (EdgeResponse 401 (TextBody ''Unauthorized'')), rooms, [], [])
         else (Inr (EdgeResponse 400 (TextBody ''Token required'')), rooms, [], []))"
    by (simp add: worker_fetch_def Let_def)
next
  fix name fwd
  assume a: "(name, fwd) \<in> set (fst (snd (snd (worker_fetch secret origins send_throws now uuid
                                                   server rnd req rooms)))) \<and>
             pathname fwd = ''/broadcast'' \<and> http_method fwd = ''POST''"
  show "http_method req = ''POST''"
    using a ws_is_not_broadcast [of "pathname req"]
    by (auto simp: worker_fetch_def Let_def split: if_splits option.splits raw_body.splits
          prod.splits sum.splits)
  show "startsWith (pathname req) ''/broadcast/''"
    using a ws_is_not_broadcast [of "pathname req"]
    by (auto simp: worker_fetch_def Let_def split: if_splits option.splits raw_body.splits
          prod.splits sum.splits)
  show "req_headers req ''Authorization'' = Some (''Bearer '' @ secret)"
    using a ws_is_not_broadcast [of "pathname req"]
    by (auto simp: worker_fetch_def Let_def split: if_splits option.splits raw_body.splits
          prod.splits sum.splits)
qed

lemma path_token_TOK: "path_token ''/broadcast/TOK'' = Some ''TOK''"
  by (simp add: path_token_def)

text \<open>
  A wrong secret and a missing header are refused with the rooms untouched; the exact
  secret reaches the three sockets of the room.
\<close>

theorem edge_publish_requires_secret_witness:
  "startsWith (pathname (publish_request ''/broadcast/TOK'' (Some ''Bearer wrong''))) ''/broadcast/'' \<and>
   worker_fetch ''secret-1'' ''https://app.example'' (\<lambda>sock. False) 9000 ''u1'' 7 1
      (publish_request ''/broadcast/TOK'' (Some ''Bearer wrong'')) one_room =
     (Inr (EdgeResponse 401 (TextBody ''Unauthorized'')), one_room, [], []) \<and>
   worker_fetch ''secret-1'' ''https://app.example'' (\<lambda>sock. False) 9000 ''u1'' 7 1
      (publish_request ''/broadcast/TOK'' None) one_room =
     (Inr (EdgeResponse 401 (TextBody ''Unauthorized'')), one_room, [], []) \<and>
   fst (worker_fetch ''secret-1'' ''https://app.example'' (\<lambda>sock. False) 9000 ''u1'' 7 1
      (publish_request ''/broadcast/TOK'' (Some ''Bearer secret-1'')) one_room) =
     Inr (EdgeResponse 200 (SuccessBody 3))"
  using edge_publish_requires_secret
          [of "publish_request ''/broadcast/TOK'' (Some ''Bearer wrong'')" "''secret-1''"
              "''https://app.example''" "\<lambda>sock. False" 9000 "''u1''" 7 1 one_room]
        edge_publish_requires_secret
          [of "publish_request ''/broadcast/TOK'' None" "''secret-1''"
              "''https://app.example''" "\<lambda>sock. False" 9000 "''u1''" 7 1 one_room]
  by (simp add: publish_request_def startsWith_def path_token_TOK truthy_def)
     (simp add: worker_fetch_def startsWith_def path_token_TOK truthy_def
        BroadcastRoom_fetch_def broadcast_def one_room_def three_sockets_def socket_info_def
        Map_delete_def Let_def)

end
